theory Spec2Isabelle
  imports Complex_Main
begin

section \<open>Python values\<close>

text \<open>
  \<^verbatim>\<open>scripts/jsonl_to_sqlite.py\<close> reads Wiktionary dumps, one JSON object per line, and
  loads three SQLite tables. Every value the script handles is what \<^verbatim>\<open>json.loads\<close>
  returns, or \<^verbatim>\<open>None\<close>, so one datatype of Python values covers them all:
  \<^verbatim>\<open>None\<close>, \<^verbatim>\<open>bool\<close>, the unbounded \<^verbatim>\<open>int\<close>, \<^verbatim>\<open>float\<close>, \<^verbatim>\<open>str\<close>, \<^verbatim>\<open>list\<close> and
  \<^verbatim>\<open>dict\<close> with string keys.

  A \<^verbatim>\<open>str\<close> is a list of characters, one \<open>char\<close> per code point. A \<^verbatim>\<open>dict\<close> is an
  association list in insertion order whose lookups take the first binding of a key.
  A \<^verbatim>\<open>float\<close> is a rational, an infinity or NaN (\<^verbatim>\<open>json.loads\<close> accepts
  \<^verbatim>\<open>Infinity\<close> and \<^verbatim>\<open>NaN\<close>); the script only ever tests a float for truth.
\<close>

datatype pyfloat = Finite rat | PosInf | NegInf | NaN

datatype json =
    JNull
  | JBool bool
  | JInt int
  | JFloat pyfloat
  | JStr string
  | JArr "json list"
  | JObj "(string \<times> json) list"

type_synonym dict = "(string \<times> json) list"

text \<open>
  The exceptions the script does not catch; each of them ends the run. The first four
  come from the script's own operations on a decoded value. \<open>ValueError\<close>, \<open>RecursionError\<close>
  and \<open>UnicodeDecodeError\<close> come from reading and decoding a line. The last three come
  from \<^verbatim>\<open>sqlite3\<close>: \<open>IntegrityError\<close> for a row that breaks a constraint of the schema,
  \<open>ProgrammingError\<close> for a parameter of a type that cannot be bound (it was
  \<^verbatim>\<open>InterfaceError\<close> before Python 3.11), \<open>OverflowError\<close> for an integer outside 64 bits.
\<close>

datatype error =
    AttributeError | TypeError | KeyError | IndexError
  | ValueError | RecursionError | UnicodeDecodeError
  | IntegrityError | ProgrammingError | OverflowError

text \<open>Truth value of a Python object, as \<^verbatim>\<open>if x:\<close> and \<^verbatim>\<open>x or y\<close> test it.\<close>

fun truthy :: "json \<Rightarrow> bool" where
  "truthy JNull = False"
| "truthy (JBool b) = b"
| "truthy (JInt i) = (i \<noteq> 0)"
| "truthy (JFloat x) = (x \<noteq> Finite 0)"
| "truthy (JStr s) = (s \<noteq> [])"
| "truthy (JArr xs) = (xs \<noteq> [])"
| "truthy (JObj kvs) = (kvs \<noteq> [])"

text \<open>\<^verbatim>\<open>x or y\<close>: the first operand when it is true, the second otherwise.\<close>

definition py_or :: "json \<Rightarrow> json \<Rightarrow> json" where
  "py_or x y = (if truthy x then x else y)"

text \<open>\<^verbatim>\<open>d.get(k, default)\<close> on a dict.\<close>

definition dict_get :: "dict \<Rightarrow> string \<Rightarrow> json \<Rightarrow> json" where
  "dict_get d k dflt = (case map_of d k of Some v \<Rightarrow> v | None \<Rightarrow> dflt)"

text \<open>
  \<^verbatim>\<open>for x in v\<close>: the items a value yields. A list yields its elements, a string its
  characters, a dict its keys; the other values are not iterable.
\<close>

fun iter :: "json \<Rightarrow> error + json list" where
  "iter (JArr xs) = Inr xs"
| "iter (JStr s) = Inr (map (\<lambda>c. JStr [c]) s)"
| "iter (JObj d) = Inr (map (\<lambda>kv. JStr (fst kv)) d)"
| "iter JNull = Inl TypeError"
| "iter (JBool b) = Inl TypeError"
| "iter (JInt i) = Inl TypeError"
| "iter (JFloat x) = Inl TypeError"

text \<open>
  \<^verbatim>\<open>v[0]\<close>: the first element of a list, the first character of a string. A dict
  decoded from JSON has string keys only, so the key \<^verbatim>\<open>0\<close> is never there.
\<close>

fun item0 :: "json \<Rightarrow> error + json" where
  "item0 (JArr (x # xs)) = Inr x"
| "item0 (JArr []) = Inl IndexError"
| "item0 (JStr (c # cs)) = Inr (JStr [c])"
| "item0 (JStr []) = Inl IndexError"
| "item0 (JObj d) = Inl KeyError"
| "item0 JNull = Inl TypeError"
| "item0 (JBool b) = Inl TypeError"
| "item0 (JInt i) = Inl TypeError"
| "item0 (JFloat x) = Inl TypeError"

section \<open>The record extractor\<close>

text \<open>
  \<^verbatim>\<open>
  TARGET_TRANSLATIONS = {
      "en": ["es"],  # English entries: keep Spanish translations
      "es": ["en"],  # Spanish entries: keep English translations
  }
  BATCH_SIZE = 10000
  \<close>
\<close>

definition TARGET_TRANSLATIONS :: "(string \<times> string list) list" where
  "TARGET_TRANSLATIONS = [(''en'', [''es'']), (''es'', [''en''])]"

definition BATCH_SIZE :: int where
  "BATCH_SIZE = 10000"

text \<open>
  The dict \<^verbatim>\<open>{"target_lang": ..., "target_word": ..., "roman": ...}\<close> that
  \<^verbatim>\<open>process_entry\<close> builds for a translation it keeps.
\<close>

record translation =
  target_lang :: json
  target_word :: json
  roman :: json

text \<open>
  The tuple \<^verbatim>\<open>(word, pos, senses_data, etymology_text, relevant_translations)\<close> that
  \<^verbatim>\<open>process_entry\<close> returns; \<^verbatim>\<open>senses_data\<close> is a list of \<^verbatim>\<open>(gloss, [])\<close> pairs.
\<close>

type_synonym entry_result =
  "json \<times> json \<times> (json \<times> json list) list \<times> json \<times> translation list"

text \<open>
  \<^verbatim>\<open>
  etymology_text = None
  if "etymology_text" in entry:
      etymology_text = entry["etymology_text"]
  elif "etymology_texts" in entry and entry["etymology_texts"]:
      etymology_text = entry["etymology_texts"][0]
  \<close>
\<close>

definition etymology_of :: "dict \<Rightarrow> error + json" where
  "etymology_of entry =
     (case map_of entry ''etymology_text'' of
        Some v \<Rightarrow> Inr v
      | None \<Rightarrow>
          (case map_of entry ''etymology_texts'' of
             Some vs \<Rightarrow> if truthy vs then item0 vs else Inr JNull
           | None \<Rightarrow> Inr JNull))"

text \<open>
  \<^verbatim>\<open>
  for sense in senses:
      glosses = sense.get("glosses", [])
      if glosses:
          gloss = glosses[0]  # Take first gloss
          senses_data.append((gloss, []))
  \<close>
  \<^verbatim>\<open>sense.get\<close> exists on a dict only; on any other item it raises AttributeError.
\<close>

fun senses_loop ::
  "json list \<Rightarrow> (json \<times> json list) list \<Rightarrow> error + (json \<times> json list) list" where
  "senses_loop [] senses_data = Inr senses_data"
| "senses_loop (JObj sense # rest) senses_data =
     (let glosses = dict_get sense ''glosses'' (JArr []) in
      if truthy glosses then
        (case item0 glosses of
           Inl e \<Rightarrow> Inl e
         | Inr gloss \<Rightarrow> senses_loop rest (senses_data @ [(gloss, [])]))
      else senses_loop rest senses_data)"
| "senses_loop (_ # rest) senses_data = Inl AttributeError"

text \<open>
  \<^verbatim>\<open>
  for trans in translations:
      trans_lang = trans.get("lang_code") or trans.get("code", "")
      if trans_lang in target_langs:
          trans_word = trans.get("word", "")
          if trans_word:
              relevant_translations.append({
                  "target_lang": trans_lang,
                  "target_word": trans_word,
                  "roman": trans.get("roman"),
              })
  \<close>
  The loop variable \<^verbatim>\<open>trans\<close> is written \<open>tr\<close>.
\<close>

fun translations_loop ::
  "string list \<Rightarrow> json list \<Rightarrow> translation list \<Rightarrow> error + translation list" where
  "translations_loop target_langs [] relevant = Inr relevant"
| "translations_loop target_langs (JObj tr # rest) relevant =
     (let trans_lang = py_or (dict_get tr ''lang_code'' JNull)
                             (dict_get tr ''code'' (JStr '''')) in
      if trans_lang \<in> set (map JStr target_langs) then
        (let trans_word = dict_get tr ''word'' (JStr '''') in
         if truthy trans_word then
           translations_loop target_langs rest
             (relevant @ [\<lparr>target_lang = trans_lang, target_word = trans_word,
                           roman = dict_get tr ''roman'' JNull\<rparr>])
         else translations_loop target_langs rest relevant)
      else translations_loop target_langs rest relevant)"
| "translations_loop target_langs (_ # rest) relevant = Inl AttributeError"

text \<open>\<^verbatim>\<open>target_langs = TARGET_TRANSLATIONS.get(lang_code, [])\<close>\<close>

definition target_langs_for :: "string \<Rightarrow> string list" where
  "target_langs_for lang_code =
     (case map_of TARGET_TRANSLATIONS lang_code of Some ls \<Rightarrow> ls | None \<Rightarrow> [])"

text \<open>
  \<^verbatim>\<open>process_entry(entry, lang_code)\<close>: \<open>Inr None\<close> is the Python \<^verbatim>\<open>return None\<close> (the record
  is rejected), \<open>Inr (Some r)\<close> the returned tuple, \<open>Inl e\<close> an exception that escapes.
\<close>

definition process_entry :: "dict \<Rightarrow> string \<Rightarrow> error + entry_result option" where
  "process_entry entry lang_code =
     (let word = dict_get entry ''word'' (JStr '''') in
      if \<not> truthy word then Inr None
      else
        (let pos = dict_get entry ''pos'' (JStr '''') in
         (case etymology_of entry of
            Inl e \<Rightarrow> Inl e
          | Inr etymology_text \<Rightarrow>
              (let target_langs = target_langs_for lang_code in
               (case iter (dict_get entry ''senses'' (JArr [])) of
                  Inl e \<Rightarrow> Inl e
                | Inr senses \<Rightarrow>
                    (case senses_loop senses [] of
                       Inl e \<Rightarrow> Inl e
                     | Inr senses_data \<Rightarrow>
                         if senses_data = [] then Inr None
                         else
                           (case iter (dict_get entry ''translations'' (JArr [])) of
                              Inl e \<Rightarrow> Inl e
                            | Inr translations \<Rightarrow>
                                (case translations_loop target_langs translations [] of
                                   Inl e \<Rightarrow> Inl e
                                 | Inr relevant_translations \<Rightarrow>
                                     Inr (Some (word, pos, senses_data, etymology_text,
                                                relevant_translations))))))))))"

section \<open>The database and the batch loader\<close>

text \<open>
  A table is the list of the parameter tuples inserted into it, in insertion order, and
  \<open>commits\<close> counts the calls of \<^verbatim>\<open>conn.commit()\<close> that \<^verbatim>\<open>flush_batches\<close> made.
  \<^verbatim>\<open>
  words_batch.append((word_id, word, lang_code))
  senses_batch.append((sense_id, word_id, pos, gloss, etymology_text))
  trans_batch.append((first_sense_id, trans["target_lang"], trans["target_word"],
                      trans["roman"]))
  \<close>
\<close>

type_synonym word_row = "int \<times> json \<times> string"
type_synonym sense_row = "int \<times> int \<times> json \<times> json \<times> json"
type_synonym trans_row = "int \<times> json \<times> json \<times> json"

record database =
  words_tbl :: "word_row list"
  senses_tbl :: "sense_row list"
  translations_tbl :: "trans_row list"
  commits :: nat

text \<open>
  An insertion fails, and the exception ends the run, when a parameter cannot be bound
  or the row breaks the schema of \<^verbatim>\<open>create_schema\<close>:
  \<^verbatim>\<open>
  CREATE TABLE IF NOT EXISTS words (
      id INTEGER PRIMARY KEY, word TEXT NOT NULL, lang_code TEXT NOT NULL);
  CREATE TABLE IF NOT EXISTS senses (
      id INTEGER PRIMARY KEY, word_id INTEGER NOT NULL, pos TEXT, gloss TEXT NOT NULL,
      etymology_text TEXT, FOREIGN KEY (word_id) REFERENCES words(id));
  CREATE TABLE IF NOT EXISTS translations (
      id INTEGER PRIMARY KEY, sense_id INTEGER NOT NULL, target_lang TEXT NOT NULL,
      target_word TEXT NOT NULL, roman TEXT, FOREIGN KEY (sense_id) REFERENCES senses(id));
  \<close>
  \<^verbatim>\<open>sqlite3\<close> binds \<^verbatim>\<open>None\<close>, \<^verbatim>\<open>bool\<close>, \<^verbatim>\<open>int\<close>, \<^verbatim>\<open>float\<close> and \<^verbatim>\<open>str\<close>; it refuses a list or a dict
  and an integer outside 64 bits. The parameters of a row are bound in order, before
  the row is inserted. SQLite stores a NaN as \<^verbatim>\<open>NULL\<close>, so \<^verbatim>\<open>NOT NULL\<close> refuses \<^verbatim>\<open>None\<close> and
  NaN. A primary key must differ from those already in the table. Foreign keys are
  not enforced: the script never sets \<^verbatim>\<open>PRAGMA foreign_keys\<close>. The \<^verbatim>\<open>id\<close> of a translation
  is assigned by SQLite and is not part of the tuple. Failures of the device, the
  size limits of SQLite and a \<^verbatim>\<open>str\<close> that utf-8 cannot encode (a lone surrogate, which
  \<^verbatim>\<open>sqlite3\<close> refuses to bind) are outside the model: strings are lists of 8-bit characters.
\<close>

definition fits_int64 :: "int \<Rightarrow> bool" where
  "fits_int64 i = (- (2 ^ 63) \<le> i \<and> i < 2 ^ 63)"

definition bind_int :: "int \<Rightarrow> error option" where
  "bind_int i = (if fits_int64 i then None else Some OverflowError)"

fun bind_value :: "json \<Rightarrow> error option" where
  "bind_value JNull = None"
| "bind_value (JBool b) = None"
| "bind_value (JInt i) = bind_int i"
| "bind_value (JFloat x) = None"
| "bind_value (JStr s) = None"
| "bind_value (JArr xs) = Some ProgrammingError"
| "bind_value (JObj d) = Some ProgrammingError"

fun first_error :: "error option list \<Rightarrow> error option" where
  "first_error [] = None"
| "first_error (Some e # rest) = Some e"
| "first_error (None # rest) = first_error rest"

definition stored_null :: "json \<Rightarrow> bool" where
  "stored_null v = (v = JNull \<or> v = JFloat NaN)"

text \<open>
  What stops the insertion of one row into a table, if anything. \<^verbatim>\<open>lang_code\<close> is always a
  string, which binds and is not \<^verbatim>\<open>NULL\<close>.
\<close>

fun check_word :: "word_row list \<Rightarrow> word_row \<Rightarrow> error option" where
  "check_word tbl (i, word, lang_code) =
     (case first_error [bind_int i, bind_value word] of
        Some e \<Rightarrow> Some e
      | None \<Rightarrow>
          if stored_null word \<or> i \<in> set (map fst tbl) then Some IntegrityError else None)"

fun check_sense :: "sense_row list \<Rightarrow> sense_row \<Rightarrow> error option" where
  "check_sense tbl (i, wid, pos, gloss, ety) =
     (case first_error [bind_int i, bind_int wid, bind_value pos, bind_value gloss,
                        bind_value ety] of
        Some e \<Rightarrow> Some e
      | None \<Rightarrow>
          if stored_null gloss \<or> i \<in> set (map fst tbl) then Some IntegrityError else None)"

fun check_translation :: "trans_row list \<Rightarrow> trans_row \<Rightarrow> error option" where
  "check_translation tbl (sid, tlang, tword, rom) =
     (case first_error [bind_int sid, bind_value tlang, bind_value tword, bind_value rom] of
        Some e \<Rightarrow> Some e
      | None \<Rightarrow>
          if stored_null tlang \<or> stored_null tword then Some IntegrityError else None)"

text \<open>
  \<^verbatim>\<open>cursor.executemany("INSERT INTO ...", rows)\<close>: the rows are inserted one after the
  other, and the first one that fails raises.
\<close>

fun executemany :: "('r list \<Rightarrow> 'r \<Rightarrow> error option) \<Rightarrow> 'r list \<Rightarrow> 'r list \<Rightarrow> error + 'r list" where
  "executemany check tbl [] = Inr tbl"
| "executemany check tbl (row # rows) =
     (case check tbl row of
        Some e \<Rightarrow> Inl e
      | None \<Rightarrow> executemany check (tbl @ [row]) rows)"

text \<open>
  \<^verbatim>\<open>
  def flush_batches(conn, words, senses, translations):
      cursor = conn.cursor()
      if words:
          cursor.executemany("INSERT INTO words ...", words)
      if senses:
          cursor.executemany("INSERT INTO senses ...", senses)
      if translations:
          cursor.executemany("INSERT INTO translations ...", translations)
      conn.commit()
  \<close>
\<close>

definition flush_batches ::
  "database \<Rightarrow> word_row list \<Rightarrow> sense_row list \<Rightarrow> trans_row list \<Rightarrow> error + database" where
  "flush_batches conn words senses translations =
     (case (if words \<noteq> [] then executemany check_word (words_tbl conn) words
            else Inr (words_tbl conn)) of
        Inl e \<Rightarrow> Inl e
      | Inr wt \<Rightarrow>
          (case (if senses \<noteq> [] then executemany check_sense (senses_tbl conn) senses
                 else Inr (senses_tbl conn)) of
             Inl e \<Rightarrow> Inl e
           | Inr st \<Rightarrow>
               (case (if translations \<noteq> [] then
                        executemany check_translation (translations_tbl conn) translations
                      else Inr (translations_tbl conn)) of
                  Inl e \<Rightarrow> Inl e
                | Inr tt \<Rightarrow>
                    Inr \<lparr>words_tbl = wt, senses_tbl = st, translations_tbl = tt,
                         commits = commits conn + 1\<rparr>)))"

section \<open>The per-file loop\<close>

text \<open>
  An input file is its name and its lines. A line is given by what the loop sees of
  it: \<open>Blank\<close> when \<^verbatim>\<open>line.strip()\<close> is empty; \<open>Undecodable e\<close> when \<^verbatim>\<open>json.loads\<close> raises
  \<^verbatim>\<open>JSONDecodeError\<close> with message \<open>e\<close>; \<open>Decoded v\<close> when it returns the value \<open>v\<close>;
  \<open>Failing x\<close> when reading or decoding the line raises an exception \<open>x\<close> that the
  \<^verbatim>\<open>except json.JSONDecodeError\<close> clause does not catch: \<^verbatim>\<open>UnicodeDecodeError\<close> from the
  utf-8 reader, \<^verbatim>\<open>ValueError\<close> from \<^verbatim>\<open>json.loads\<close> on an integer literal past the digit
  limit, \<^verbatim>\<open>RecursionError\<close> on a value nested too deep.
\<close>

datatype line = Blank | Undecodable string | Decoded json | Failing error

record jsonl_file =
  file_name :: string
  file_lines :: "line list"

text \<open>What \<^verbatim>\<open>process_file\<close> prints, one constructor per \<^verbatim>\<open>print\<close> call.\<close>

datatype message =
    Processing string string
  | Warning int string
  | Processed int
  | Completed int

text \<open>The local variables of \<^verbatim>\<open>process_file\<close>, the connection and the printed output.\<close>

record loop_state =
  word_id :: int
  sense_id :: int
  entry_count :: int
  words_batch :: "word_row list"
  senses_batch :: "sense_row list"
  trans_batch :: "trans_row list"
  conn :: database
  out :: "message list"

text \<open>
  \<^verbatim>\<open>
  for gloss, _ in senses_data:
      senses_batch.append((sense_id, word_id, pos, gloss, etymology_text))
      sense_id += 1
  \<close>
  The function returns the batch and the advanced \<^verbatim>\<open>sense_id\<close>.
\<close>

fun add_senses ::
  "int \<Rightarrow> json \<Rightarrow> json \<Rightarrow> (json \<times> json list) list \<Rightarrow> sense_row list \<Rightarrow> int
   \<Rightarrow> sense_row list \<times> int" where
  "add_senses wid pos ety [] batch sid = (batch, sid)"
| "add_senses wid pos ety ((gloss, ts) # rest) batch sid =
     add_senses wid pos ety rest (batch @ [(sid, wid, pos, gloss, ety)]) (sid + 1)"

text \<open>
  \<^verbatim>\<open>
  for trans in translations:
      trans_batch.append((first_sense_id, trans["target_lang"], trans["target_word"],
                          trans["roman"]))
  \<close>
\<close>

fun add_translations :: "int \<Rightarrow> translation list \<Rightarrow> trans_row list \<Rightarrow> trans_row list" where
  "add_translations first_sense_id [] batch = batch"
| "add_translations first_sense_id (tr # rest) batch =
     add_translations first_sense_id rest
       (batch @ [(first_sense_id, target_lang tr, target_word tr, roman tr)])"

text \<open>
  Lines 173 to 200 of the script: the rows of one accepted record are appended to the
  batches, and the cursors and the counter advance.
\<close>

definition append_entry :: "string \<Rightarrow> entry_result \<Rightarrow> loop_state \<Rightarrow> loop_state" where
  "append_entry lang_code result st =
     (case result of (word, pos, senses_data, etymology_text, translations) \<Rightarrow>
        (let words_batch' = words_batch st @ [(word_id st, word, lang_code)];
             first_sense_id = sense_id st;
             (senses_batch', sense_id') =
               add_senses (word_id st) pos etymology_text senses_data
                 (senses_batch st) (sense_id st);
             trans_batch' = add_translations first_sense_id translations (trans_batch st)
         in st\<lparr>word_id := word_id st + 1, sense_id := sense_id',
               entry_count := entry_count st + 1,
               words_batch := words_batch', senses_batch := senses_batch',
               trans_batch := trans_batch'\<rparr>))"

text \<open>
  \<^verbatim>\<open>
  # Batch insert
  if entry_count % BATCH_SIZE == 0:
      flush_batches(conn, words_batch, senses_batch, trans_batch)
      words_batch = []
      senses_batch = []
      trans_batch = []
      print(f"  Processed {entry_count:,} entries...")
  \<close>
\<close>

definition batch_insert :: "loop_state \<Rightarrow> error + loop_state" where
  "batch_insert st =
     (if entry_count st mod BATCH_SIZE = 0 then
        (case flush_batches (conn st) (words_batch st) (senses_batch st) (trans_batch st) of
           Inl e \<Rightarrow> Inl e
         | Inr conn' \<Rightarrow>
             Inr (st\<lparr>words_batch := [], senses_batch := [], trans_batch := [],
                     conn := conn', out := out st @ [Processed (entry_count st)]\<rparr>))
      else Inr st)"

text \<open>
  The body of \<^verbatim>\<open>for line_num, line in enumerate(f, 1)\<close>. A decoded value that is not a
  dict has no \<^verbatim>\<open>get\<close>, so \<^verbatim>\<open>entry.get("lang_code", "")\<close> raises AttributeError.
\<close>

fun process_line :: "string \<Rightarrow> int \<Rightarrow> line \<Rightarrow> loop_state \<Rightarrow> error + loop_state" where
  "process_line lang_code line_num Blank st = Inr st"
| "process_line lang_code line_num (Undecodable e) st =
     Inr (st\<lparr>out := out st @ [Warning line_num e]\<rparr>)"
| "process_line lang_code line_num (Failing x) st = Inl x"
| "process_line lang_code line_num (Decoded (JObj entry)) st =
     (let entry_lang = dict_get entry ''lang_code'' (JStr '''') in
      if entry_lang \<noteq> JStr lang_code then Inr st
      else
        (case process_entry entry lang_code of
           Inl e \<Rightarrow> Inl e
         | Inr None \<Rightarrow> Inr st
         | Inr (Some result) \<Rightarrow> batch_insert (append_entry lang_code result st)))"
| "process_line lang_code line_num (Decoded _) st = Inl AttributeError"

fun lines_loop :: "string \<Rightarrow> int \<Rightarrow> line list \<Rightarrow> loop_state \<Rightarrow> error + loop_state" where
  "lines_loop lang_code line_num [] st = Inr st"
| "lines_loop lang_code line_num (l # ls) st =
     (case process_line lang_code line_num l st of
        Inl e \<Rightarrow> Inl e
      | Inr st' \<Rightarrow> lines_loop lang_code (line_num + 1) ls st')"

text \<open>
  \<^verbatim>\<open>
  # Final flush
  if words_batch or senses_batch or trans_batch:
      flush_batches(conn, words_batch, senses_batch, trans_batch)
  \<close>
\<close>

definition final_flush :: "loop_state \<Rightarrow> error + database" where
  "final_flush st =
     (if words_batch st \<noteq> [] \<or> senses_batch st \<noteq> [] \<or> trans_batch st \<noteq> [] then
        flush_batches (conn st) (words_batch st) (senses_batch st) (trans_batch st)
      else Inr (conn st))"

text \<open>
  \<^verbatim>\<open>process_file(conn, filepath, lang_code, start_word_id, start_sense_id)\<close> returns
  \<^verbatim>\<open>(word_id, sense_id, entry_count)\<close>; the model returns with it the connection as the
  call leaves it and what the call printed. \<open>initial_state\<close> is the state at the head of
  the loop: the cursors given, the counter at zero, empty batches, one line printed.
\<close>

definition initial_state :: "database \<Rightarrow> jsonl_file \<Rightarrow> string \<Rightarrow> int \<Rightarrow> int \<Rightarrow> loop_state" where
  "initial_state db filepath lang_code start_word_id start_sense_id =
     \<lparr>word_id = start_word_id, sense_id = start_sense_id, entry_count = 0,
      words_batch = [], senses_batch = [], trans_batch = [],
      conn = db, out = [Processing (file_name filepath) lang_code]\<rparr>"

definition process_file ::
  "database \<Rightarrow> jsonl_file \<Rightarrow> string \<Rightarrow> int \<Rightarrow> int
   \<Rightarrow> error + (database \<times> message list \<times> (int \<times> int \<times> int))" where
  "process_file db filepath lang_code start_word_id start_sense_id =
     (case lines_loop lang_code 1 (file_lines filepath)
             (initial_state db filepath lang_code start_word_id start_sense_id) of
        Inl e \<Rightarrow> Inl e
      | Inr st \<Rightarrow>
          (case final_flush st of
             Inl e \<Rightarrow> Inl e
           | Inr db' \<Rightarrow>
               Inr (db', out st @ [Completed (entry_count st)],
                    (word_id st, sense_id st, entry_count st))))"

section \<open>Notions the properties are stated with\<close>

text \<open>
  The rows of a table that a state of the loop accounts for: those already inserted
  and those still in the batch. The rows a step produces are the ones it adds to them.
\<close>

definition all_words :: "loop_state \<Rightarrow> word_row list" where
  "all_words st = words_tbl (conn st) @ words_batch st"

definition all_senses :: "loop_state \<Rightarrow> sense_row list" where
  "all_senses st = senses_tbl (conn st) @ senses_batch st"

definition all_translations :: "loop_state \<Rightarrow> trans_row list" where
  "all_translations st = translations_tbl (conn st) @ trans_batch st"

definition produced_words :: "loop_state \<Rightarrow> loop_state \<Rightarrow> word_row list" where
  "produced_words st st' = drop (length (all_words st)) (all_words st')"

definition produced_senses :: "loop_state \<Rightarrow> loop_state \<Rightarrow> sense_row list" where
  "produced_senses st st' = drop (length (all_senses st)) (all_senses st')"

definition produced_translations :: "loop_state \<Rightarrow> loop_state \<Rightarrow> trans_row list" where
  "produced_translations st st' = drop (length (all_translations st)) (all_translations st')"

text \<open>A state of the loop without what was printed.\<close>

definition data_of :: "loop_state \<Rightarrow> loop_state" where
  "data_of st = st\<lparr>out := []\<rparr>"

text \<open>The rows a table gained between two states of the database.\<close>

definition new_rows :: "'a list \<Rightarrow> 'a list \<Rightarrow> 'a list" where
  "new_rows before after = drop (length before) after"

text \<open>
  The definition rows and the cross-reference rows of one accepted record, written
  without the batch: identifiers count up from \<open>sid\<close>, one per element of
  \<^verbatim>\<open>senses_data\<close>, and every cross-reference row carries \<open>first_sense_id\<close>.
\<close>

fun sense_rows ::
  "int \<Rightarrow> json \<Rightarrow> json \<Rightarrow> int \<Rightarrow> (json \<times> json list) list \<Rightarrow> sense_row list" where
  "sense_rows wid pos ety sid [] = []"
| "sense_rows wid pos ety sid ((gloss, ts) # rest) =
     (sid, wid, pos, gloss, ety) # sense_rows wid pos ety (sid + 1) rest"

definition trans_rows :: "int \<Rightarrow> translation list \<Rightarrow> trans_row list" where
  "trans_rows first_sense_id trs =
     map (\<lambda>tr. (first_sense_id, target_lang tr, target_word tr, roman tr)) trs"

text \<open>
  What the loop body extracts from a line: the tuple of an accepted record in the
  language being processed, nothing for any other line. A line qualifies when it
  yields a tuple; it raises when reading, decoding or extracting it ends in an exception.
  A flush that fails is not counted here: it is the database refusing rows, not the line
  raising.
\<close>

fun line_entry :: "string \<Rightarrow> line \<Rightarrow> entry_result option" where
  "line_entry lang_code (Decoded (JObj entry)) =
     (if dict_get entry ''lang_code'' (JStr '''') = JStr lang_code then
        (case process_entry entry lang_code of
           Inr (Some result) \<Rightarrow> Some result
         | Inr None \<Rightarrow> None
         | Inl e \<Rightarrow> None)
      else None)"
| "line_entry lang_code l = None"

definition qualifies :: "string \<Rightarrow> line \<Rightarrow> bool" where
  "qualifies lang_code l = (line_entry lang_code l \<noteq> None)"

fun raises :: "string \<Rightarrow> line \<Rightarrow> bool" where
  "raises lang_code Blank = False"
| "raises lang_code (Undecodable e) = False"
| "raises lang_code (Failing x) = True"
| "raises lang_code (Decoded (JObj entry)) =
     (dict_get entry ''lang_code'' (JStr '''') = JStr lang_code \<and>
      (case process_entry entry lang_code of Inl e \<Rightarrow> True | Inr r \<Rightarrow> False))"
| "raises lang_code (Decoded v) = True"

text \<open>
  The rows of a whole file, record by record and without batches: the reference the
  batch loader is compared with.
\<close>

fun file_words :: "string \<Rightarrow> int \<Rightarrow> line list \<Rightarrow> word_row list" where
  "file_words lang_code wid [] = []"
| "file_words lang_code wid (l # ls) =
     (case line_entry lang_code l of
        None \<Rightarrow> file_words lang_code wid ls
      | Some (word, pos, senses_data, ety, trs) \<Rightarrow>
          (wid, word, lang_code) # file_words lang_code (wid + 1) ls)"

fun file_senses :: "string \<Rightarrow> int \<Rightarrow> int \<Rightarrow> line list \<Rightarrow> sense_row list" where
  "file_senses lang_code wid sid [] = []"
| "file_senses lang_code wid sid (l # ls) =
     (case line_entry lang_code l of
        None \<Rightarrow> file_senses lang_code wid sid ls
      | Some (word, pos, senses_data, ety, trs) \<Rightarrow>
          sense_rows wid pos ety sid senses_data @
          file_senses lang_code (wid + 1) (sid + int (length senses_data)) ls)"

fun file_translations :: "string \<Rightarrow> int \<Rightarrow> line list \<Rightarrow> trans_row list" where
  "file_translations lang_code sid [] = []"
| "file_translations lang_code sid (l # ls) =
     (case line_entry lang_code l of
        None \<Rightarrow> file_translations lang_code sid ls
      | Some (word, pos, senses_data, ety, trs) \<Rightarrow>
          trans_rows sid trs @
          file_translations lang_code (sid + int (length senses_data)) ls)"




text \<open>
  The spec's words about a record. Its sense list and its translation list are the
  items the extractor iterates over. A sense has at least one gloss when its
  \<^verbatim>\<open>glosses\<close> value is non-empty, and its first gloss is \<^verbatim>\<open>glosses[0]\<close>. A translation's
  language code is read from \<^verbatim>\<open>lang_code\<close>, or from \<^verbatim>\<open>code\<close> when that is missing or
  empty; the translation is kept when the code is in the allow-list \<open>allowed\<close> and its \<^verbatim>\<open>word\<close> is non-empty.
\<close>

definition sense_list :: "dict \<Rightarrow> json list" where
  "sense_list entry =
     (case iter (dict_get entry ''senses'' (JArr [])) of Inr ss \<Rightarrow> ss | Inl e \<Rightarrow> [])"

definition translation_list :: "dict \<Rightarrow> json list" where
  "translation_list entry =
     (case iter (dict_get entry ''translations'' (JArr [])) of Inr ts \<Rightarrow> ts | Inl e \<Rightarrow> [])"

fun has_gloss :: "json \<Rightarrow> bool" where
  "has_gloss (JObj sense) = truthy (dict_get sense ''glosses'' (JArr []))"
| "has_gloss v = False"

fun first_gloss :: "json \<Rightarrow> error + json" where
  "first_gloss (JObj sense) = item0 (dict_get sense ''glosses'' (JArr []))"
| "first_gloss v = Inl AttributeError"




text \<open>
  The shape the spec gives a record of interest: the sense list, when present, is a
  list of objects whose \<^verbatim>\<open>glosses\<close>, when present, is a list; the plural etymology field,
  when present, is a list; the translation list, when present, is a list of objects.
\<close>

fun is_obj :: "json \<Rightarrow> bool" where
  "is_obj (JObj d) = True"
| "is_obj v = False"

fun is_arr :: "json \<Rightarrow> bool" where
  "is_arr (JArr xs) = True"
| "is_arr v = False"

fun sense_shaped :: "json \<Rightarrow> bool" where
  "sense_shaped (JObj sense) = is_arr (dict_get sense ''glosses'' (JArr []))"
| "sense_shaped v = False"

definition well_shaped :: "dict \<Rightarrow> bool" where
  "well_shaped entry =
     (is_arr (dict_get entry ''senses'' (JArr [])) \<and>
      list_all sense_shaped (sense_list entry) \<and>
      is_arr (dict_get entry ''etymology_texts'' (JArr [])) \<and>
      is_arr (dict_get entry ''translations'' (JArr [])) \<and>
      list_all is_obj (translation_list entry))"

section \<open>Example inputs\<close>

text \<open>A fresh database, as \<^verbatim>\<open>main\<close> creates it before the first file.\<close>

definition empty_db :: database where
  "empty_db = \<lparr>words_tbl = [], senses_tbl = [], translations_tbl = [], commits = 0\<rparr>"

text \<open>
  The line of the spec's end-to-end scenario, decoded:
  \<^verbatim>\<open>{"word":"cat","lang_code":"en","pos":"noun",
    "senses":[{"glosses":["a small domesticated feline"]}],
    "translations":[{"lang_code":"es","word":"gato"}]}\<close>
\<close>

definition cat_entry :: dict where
  "cat_entry =
     [(''word'', JStr ''cat''), (''lang_code'', JStr ''en''), (''pos'', JStr ''noun''),
      (''senses'', JArr [JObj [(''glosses'', JArr [JStr ''a small domesticated feline''])]]),
      (''translations'', JArr [JObj [(''lang_code'', JStr ''es''), (''word'', JStr ''gato'')]])]"


text \<open>\<^verbatim>\<open>{"word":"cat","lang_code":"en","senses":[{"glosses":[""]}]}\<close>\<close>

definition empty_gloss_entry :: dict where
  "empty_gloss_entry =
     [(''word'', JStr ''cat''), (''lang_code'', JStr ''en''),
      (''senses'', JArr [JObj [(''glosses'', JArr [JStr ''''])]])]"

text \<open>
  \<^verbatim>\<open>{"word":"chat","lang_code":"fr","senses":5}\<close>: a record of another language on which
  the extractor, were it called, would raise.
\<close>

definition french_entry :: dict where
  "french_entry = [(''word'', JStr ''chat''), (''lang_code'', JStr ''fr''), (''senses'', JInt 5)]"

text \<open>
  \<^verbatim>\<open>{"word":"gato","lang_code":"es","etymology_texts":["Del latin cattus.","Otra."],
    "senses":[{"glosses":["felino","otro"]},{"glosses":[]},{"glosses":["astuto"]}],
    "translations":[{"code":"en","word":"cat","roman":"kat"},{"lang_code":"fr","word":"chat"},
                    {"lang_code":"en","word":""},{"lang_code":"","code":"en","word":"tomcat"}]}\<close>
\<close>

definition gato_entry :: dict where
  "gato_entry =
     [(''word'', JStr ''gato''), (''lang_code'', JStr ''es''),
      (''etymology_texts'', JArr [JStr ''Del latin cattus.'', JStr ''Otra.'']),
      (''senses'', JArr [JObj [(''glosses'', JArr [JStr ''felino'', JStr ''otro''])],
                         JObj [(''glosses'', JArr [])],
                         JObj [(''glosses'', JArr [JStr ''astuto''])]]),
      (''translations'',
         JArr [JObj [(''code'', JStr ''en''), (''word'', JStr ''cat''), (''roman'', JStr ''kat'')],
               JObj [(''lang_code'', JStr ''fr''), (''word'', JStr ''chat'')],
               JObj [(''lang_code'', JStr ''en''), (''word'', JStr '''')],
               JObj [(''lang_code'', JStr ''''), (''code'', JStr ''en''),
                     (''word'', JStr ''tomcat'')]])]"

text \<open>The state in which the loop of a first file starts, and two one-line files.\<close>

definition start_state :: "string \<Rightarrow> loop_state" where
  "start_state lang_code =
     initial_state empty_db \<lparr>file_name = ''dump.jsonl'', file_lines = []\<rparr> lang_code 1 1"

definition cat_file :: jsonl_file where
  "cat_file = \<lparr>file_name = ''en.jsonl'', file_lines = [Decoded (JObj cat_entry)]\<rparr>"

definition gato_file :: jsonl_file where
  "gato_file = \<lparr>file_name = ''es.jsonl'', file_lines = [Decoded (JObj gato_entry)]\<rparr>"

text \<open>
  \<^verbatim>\<open>{"word":"bank","lang_code":"en",
    "senses":[{"glosses":["a financial institution"]},{"glosses":["the side of a river"]}]}\<close>
\<close>

definition bank_entry :: dict where
  "bank_entry =
     [(''word'', JStr ''bank''), (''lang_code'', JStr ''en''),
      (''senses'', JArr [JObj [(''glosses'', JArr [JStr ''a financial institution''])],
                         JObj [(''glosses'', JArr [JStr ''the side of a river''])]])]"

definition bank_file :: jsonl_file where
  "bank_file = \<lparr>file_name = ''en.jsonl'', file_lines = [Decoded (JObj bank_entry)]\<rparr>"




text \<open>
  What the extractor returns on the example records, and the state of the loop after
  the one line, from \<open>start_state\<close>.
\<close>

definition cat_result :: entry_result where
  "cat_result =
     (JStr ''cat'', JStr ''noun'', [(JStr ''a small domesticated feline'', [])], JNull,
      [\<lparr>target_lang = JStr ''es'', target_word = JStr ''gato'', roman = JNull\<rparr>])"

definition gato_result :: entry_result where
  "gato_result =
     (JStr ''gato'', JStr '''', [(JStr ''felino'', []), (JStr ''astuto'', [])],
      JStr ''Del latin cattus.'',
      [\<lparr>target_lang = JStr ''en'', target_word = JStr ''cat'', roman = JStr ''kat''\<rparr>,
       \<lparr>target_lang = JStr ''en'', target_word = JStr ''tomcat'', roman = JNull\<rparr>])"

definition cat_state :: loop_state where
  "cat_state =
     \<lparr>word_id = 2, sense_id = 2, entry_count = 1,
      words_batch = [(1, JStr ''cat'', ''en'')],
      senses_batch = [(1, 1, JStr ''noun'', JStr ''a small domesticated feline'', JNull)],
      trans_batch = [(1, JStr ''es'', JStr ''gato'', JNull)],
      conn = empty_db, out = [Processing ''dump.jsonl'' ''en'']\<rparr>"

definition gato_state :: loop_state where
  "gato_state =
     \<lparr>word_id = 2, sense_id = 3, entry_count = 1,
      words_batch = [(1, JStr ''gato'', ''es'')],
      senses_batch = [(1, 1, JStr '''', JStr ''felino'', JStr ''Del latin cattus.''),
                      (2, 1, JStr '''', JStr ''astuto'', JStr ''Del latin cattus.'')],
      trans_batch = [(1, JStr ''en'', JStr ''cat'', JStr ''kat''),
                     (1, JStr ''en'', JStr ''tomcat'', JNull)],
      conn = empty_db, out = [Processing ''dump.jsonl'' ''es'']\<rparr>"

definition empty_gloss_state :: loop_state where
  "empty_gloss_state =
     \<lparr>word_id = 2, sense_id = 2, entry_count = 1,
      words_batch = [(1, JStr ''cat'', ''en'')],
      senses_batch = [(1, 1, JStr '''', JStr '''', JNull)],
      trans_batch = [],
      conn = empty_db, out = [Processing ''dump.jsonl'' ''en'']\<rparr>"

section \<open>The extractor's loops\<close>

lemma senses_loop_Inr:
  "senses_loop ss acc = Inr r \<Longrightarrow>
     list_all is_obj ss \<and>
     (\<exists>r'. r = acc @ r' \<and>
        list_all2 (\<lambda>s (g, ts). first_gloss s = Inr g \<and> ts = []) (filter has_gloss ss) r')"
proof (induction ss arbitrary: acc r)
  case Nil
  then show ?case by simp
next
  case (Cons s ss)
  show ?case
  proof (cases s)
    case (JObj sense)
    show ?thesis
    proof (cases "truthy (dict_get sense ''glosses'' (JArr []))")
      case True
      with Cons.prems JObj obtain g
        where g: "item0 (dict_get sense ''glosses'' (JArr [])) = Inr g"
          and rest: "senses_loop ss (acc @ [(g, [])]) = Inr r"
        by (auto simp: Let_def split: sum.splits)
      from Cons.IH [OF rest] obtain r'
        where "list_all is_obj ss" and "r = (acc @ [(g, [])]) @ r'"
          and "list_all2 (\<lambda>s (g, ts). first_gloss s = Inr g \<and> ts = []) (filter has_gloss ss) r'"
        by blast
      with JObj True g show ?thesis by auto
    next
      case False
      with Cons.prems JObj have "senses_loop ss acc = Inr r" by simp
      from Cons.IH [OF this] JObj False show ?thesis by auto
    qed
  qed (use Cons.prems in simp_all)
qed

lemma senses_loop_shaped:
  "list_all sense_shaped ss \<Longrightarrow> \<exists>r. senses_loop ss acc = Inr r"
proof (induction ss arbitrary: acc)
  case Nil
  then show ?case by simp
next
  case (Cons s ss)
  then obtain sense gs where s: "s = JObj sense"
    and gs: "dict_get sense ''glosses'' (JArr []) = JArr gs"
    by (cases s; cases "dict_get (case s of JObj d \<Rightarrow> d) ''glosses'' (JArr [])") auto
  from Cons have IH: "\<And>acc. \<exists>r. senses_loop ss acc = Inr r" by simp
  show ?case
  proof (cases gs)
    case Nil
    with s gs IH show ?thesis by simp
  next
    case (Cons g gs')
    with s gs IH show ?thesis by simp
  qed
qed



lemma translations_loop_shaped:
  "list_all is_obj ts \<Longrightarrow> \<exists>r. translations_loop allowed ts acc = Inr r"
proof (induction ts arbitrary: acc)
  case Nil
  then show ?case by simp
next
  case (Cons t ts)
  then show ?case by (cases t) (simp_all add: Let_def)
qed

text \<open>What an accepted record's tuple holds.\<close>

lemma process_entry_Some:
  assumes "process_entry entry lang_code = Inr (Some (word, pos, senses_data, ety, trs))"
  shows "word = dict_get entry ''word'' (JStr '''')"
    and "truthy word"
    and "pos = dict_get entry ''pos'' (JStr '''')"
    and "etymology_of entry = Inr ety"
    and "senses_loop (sense_list entry) [] = Inr senses_data"
    and "senses_data \<noteq> []"
    and "translations_loop (target_langs_for lang_code) (translation_list entry) [] = Inr trs"
  using assms
  by (auto simp: process_entry_def Let_def sense_list_def translation_list_def
           split: if_splits sum.splits)


lemma is_arr_iter: "is_arr v \<Longrightarrow> \<exists>xs. v = JArr xs \<and> iter v = Inr xs"
  by (cases v) simp_all

lemma etymology_of_shaped:
  assumes "is_arr (dict_get entry ''etymology_texts'' (JArr []))"
  shows "\<exists>v. etymology_of entry = Inr v"
proof (cases "map_of entry ''etymology_text''")
  case (Some v)
  then show ?thesis by (simp add: etymology_of_def)
next
  case None
  show ?thesis
  proof (cases "map_of entry ''etymology_texts''")
    case None
    with \<open>map_of entry ''etymology_text'' = None\<close> show ?thesis
      by (simp add: etymology_of_def)
  next
    case (Some vs)
    with assms obtain xs where "vs = JArr xs"
      by (cases vs) (simp_all add: dict_get_def)
    with Some \<open>map_of entry ''etymology_text'' = None\<close> show ?thesis
      by (cases xs) (simp_all add: etymology_of_def)
  qed
qed

lemma process_entry_shaped:
  assumes "well_shaped entry"
  shows "\<exists>r. process_entry entry lang_code = Inr r"
proof -
  from assms obtain ety where ety: "etymology_of entry = Inr ety"
    using etymology_of_shaped by (auto simp: well_shaped_def)
  from assms obtain ss where ss: "iter (dict_get entry ''senses'' (JArr [])) = Inr ss"
    and sl: "sense_list entry = ss"
    using is_arr_iter [of "dict_get entry ''senses'' (JArr [])"]
    by (auto simp: well_shaped_def sense_list_def)
  from assms obtain ts where ts: "iter (dict_get entry ''translations'' (JArr [])) = Inr ts"
    and tl: "translation_list entry = ts"
    using is_arr_iter [of "dict_get entry ''translations'' (JArr [])"]
    by (auto simp: well_shaped_def translation_list_def)
  from assms sl obtain sd where sd: "senses_loop ss [] = Inr sd"
    using senses_loop_shaped [of ss "[]"] by (auto simp: well_shaped_def)
  from assms tl obtain trs
    where trs: "translations_loop (target_langs_for lang_code) ts [] = Inr trs"
    using translations_loop_shaped [of ts "target_langs_for lang_code" "[]"]
    by (auto simp: well_shaped_def)
  from ety ss sd ts trs show ?thesis
    by (simp add: process_entry_def Let_def)
qed

section \<open>One record's rows\<close>

lemma add_senses_rows:
  "add_senses wid pos ety sd batch sid =
     (batch @ sense_rows wid pos ety sid sd, sid + int (length sd))"
  by (induction sd arbitrary: batch sid) auto

lemma add_translations_rows:
  "add_translations fsid trs batch = batch @ trans_rows fsid trs"
  by (induction trs arbitrary: batch) (auto simp: trans_rows_def)

lemma length_sense_rows: "length (sense_rows wid pos ety sid sd) = length sd"
  by (induction sd arbitrary: sid) auto

lemma sense_rows_ids:
  "row \<in> set (sense_rows wid pos ety sid sd) \<Longrightarrow>
     sid \<le> fst row \<and> fst row < sid + int (length sd)"
  by (induction sd arbitrary: sid) fastforce+

lemma sense_rows_fields:
  "(i, w, p, g, e) \<in> set (sense_rows wid pos ety sid sd) \<Longrightarrow>
     w = wid \<and> p = pos \<and> e = ety \<and> g \<in> fst ` set sd"
  by (induction sd arbitrary: sid) fastforce+



text \<open>What \<open>append_entry\<close> does to the batches, the cursors and the counter.\<close>

lemma append_entry_fields:
  "words_batch (append_entry lang_code (word, pos, sd, ety, trs) st) =
     words_batch st @ [(word_id st, word, lang_code)]"
  "senses_batch (append_entry lang_code (word, pos, sd, ety, trs) st) =
     senses_batch st @ sense_rows (word_id st) pos ety (sense_id st) sd"
  "trans_batch (append_entry lang_code (word, pos, sd, ety, trs) st) =
     trans_batch st @ trans_rows (sense_id st) trs"
  "word_id (append_entry lang_code (word, pos, sd, ety, trs) st) = word_id st + 1"
  "sense_id (append_entry lang_code (word, pos, sd, ety, trs) st) =
     sense_id st + int (length sd)"
  "entry_count (append_entry lang_code (word, pos, sd, ety, trs) st) = entry_count st + 1"
  "conn (append_entry lang_code (word, pos, sd, ety, trs) st) = conn st"
  "out (append_entry lang_code (word, pos, sd, ety, trs) st) = out st"
  by (simp_all add: append_entry_def add_senses_rows add_translations_rows Let_def)

lemma append_entry_rows:
  "all_words (append_entry lang_code (word, pos, sd, ety, trs) st) =
     all_words st @ [(word_id st, word, lang_code)]"
  "all_senses (append_entry lang_code (word, pos, sd, ety, trs) st) =
     all_senses st @ sense_rows (word_id st) pos ety (sense_id st) sd"
  "all_translations (append_entry lang_code (word, pos, sd, ety, trs) st) =
     all_translations st @ trans_rows (sense_id st) trs"
  by (simp_all add: all_words_def all_senses_def all_translations_def append_entry_fields)

section \<open>Insertions\<close>

lemma executemany_Inr:
  "executemany check tbl rows = Inr t \<Longrightarrow> t = tbl @ rows"
proof (induction rows arbitrary: tbl)
  case Nil
  then show ?case by simp
next
  case (Cons r rows)
  then have "executemany check (tbl @ [r]) rows = Inr t"
    by (simp split: option.splits)
  from Cons.IH [OF this] show ?case by simp
qed

text \<open>A flush that returns has appended each batch to its table and committed once.\<close>

lemma flush_batches_Inr:
  assumes "flush_batches db ws ss ts = Inr db'"
  shows "words_tbl db' = words_tbl db @ ws"
    and "senses_tbl db' = senses_tbl db @ ss"
    and "translations_tbl db' = translations_tbl db @ ts"
    and "commits db' = commits db + 1"
  using assms
  by (auto simp: flush_batches_def split: if_splits sum.splits dest!: executemany_Inr)

lemma batch_insert_Inr:
  assumes "batch_insert st = Inr st'"
  shows "all_words st' = all_words st"
    and "all_senses st' = all_senses st"
    and "all_translations st' = all_translations st"
    and "word_id st' = word_id st"
    and "sense_id st' = sense_id st"
    and "entry_count st' = entry_count st"
  using assms
  by (auto simp: batch_insert_def all_words_def all_senses_def all_translations_def
           split: if_splits sum.splits dest: flush_batches_Inr)






section \<open>One line, and the loop over the lines\<close>

lemma process_line_qualifies:
  "line_entry lang_code l = Some result \<Longrightarrow>
     process_line lang_code n l st = batch_insert (append_entry lang_code result st)"
  by (induction lang_code l rule: line_entry.induct)
     (auto simp: Let_def split: if_splits sum.splits option.splits)

lemma process_line_skips:
  "line_entry lang_code l = None \<Longrightarrow> \<not> raises lang_code l \<Longrightarrow>
     \<exists>m. process_line lang_code n l st = Inr (st\<lparr>out := out st @ m\<rparr>)"
proof (induction lang_code l rule: raises.induct)
  case (2 lang_code e)
  show ?case by (rule exI [of _ "[Warning n e]"]) simp
next
  case (4 lang_code entry)
  then show ?case
    by (intro exI [of _ "[]"]) (auto simp: Let_def split: sum.splits option.splits)
qed (auto intro: exI [of _ "[]"])

lemma process_line_Inr_no_raise:
  "process_line lang_code n l st = Inr st' \<Longrightarrow> \<not> raises lang_code l"
  by (induction lang_code l rule: raises.induct)
     (auto simp: Let_def split: if_splits sum.splits)

lemma lines_loop_Inr_no_raise:
  "lines_loop lang_code n ls st = Inr st' \<Longrightarrow> \<forall>l \<in> set ls. \<not> raises lang_code l"
proof (induction ls arbitrary: n st)
  case Nil
  then show ?case by simp
next
  case (Cons l ls)
  then obtain st1 where st1: "process_line lang_code n l st = Inr st1"
    and rest: "lines_loop lang_code (n + 1) ls st1 = Inr st'"
    by (auto split: sum.splits)
  from process_line_Inr_no_raise [OF st1] Cons.IH [OF rest] show ?case by simp
qed

lemma length_file_senses:
  "length (file_senses lang_code wid sid ls) = length (file_senses lang_code wid' sid' ls)"
  by (induction ls arbitrary: wid sid wid' sid')
     (auto simp: length_sense_rows split: option.splits)

text \<open>
  The loop against the reference: when the loop returns, the rows it accounts for are
  those of the file, record by record, and the cursors and the counter have advanced
  by as much.
\<close>

lemma lines_loop_rows:
  assumes "lines_loop lang_code n ls st = Inr st'"
  shows "all_words st' = all_words st @ file_words lang_code (word_id st) ls \<and>
     all_senses st' = all_senses st @ file_senses lang_code (word_id st) (sense_id st) ls \<and>
     all_translations st' =
       all_translations st @ file_translations lang_code (sense_id st) ls \<and>
     word_id st' = word_id st + int (length (filter (qualifies lang_code) ls)) \<and>
     sense_id st' =
       sense_id st + int (length (file_senses lang_code (word_id st) (sense_id st) ls)) \<and>
     entry_count st' = entry_count st + int (length (filter (qualifies lang_code) ls))"
  using assms
proof (induction ls arbitrary: n st)
  case Nil
  then show ?case by simp
next
  case (Cons l ls)
  then obtain st1 where step: "process_line lang_code n l st = Inr st1"
    and rest: "lines_loop lang_code (n + 1) ls st1 = Inr st'"
    by (auto split: sum.splits)
  note IH = Cons.IH [OF rest]
  from step have nr: "\<not> raises lang_code l" by (rule process_line_Inr_no_raise)
  show ?case
  proof (cases "line_entry lang_code l")
    case None
    from process_line_skips [OF None nr, of n st] step obtain m
      where st1: "st1 = st\<lparr>out := out st @ m\<rparr>"
      by auto
    from None have q: "\<not> qualifies lang_code l" by (simp add: qualifies_def)
    from IH None q show ?thesis
      by (simp add: st1 all_words_def all_senses_def all_translations_def)
  next
    case (Some result)
    obtain word pos sd ety trs where r: "result = (word, pos, sd, ety, trs)"
      by (cases result) auto
    from process_line_qualifies [OF Some, of n st] step
    have ins: "batch_insert (append_entry lang_code (word, pos, sd, ety, trs) st) = Inr st1"
      by (simp add: r)
    note st1 = batch_insert_Inr [OF ins, unfolded append_entry_rows append_entry_fields]
    have len: "length (file_senses lang_code (word_id st + 1) (sense_id st + int (length sd)) ls)
        = length (file_senses lang_code (word_id st) (sense_id st) ls)" for ls
      by (rule length_file_senses)
    from Some have q: "qualifies lang_code l" by (simp add: qualifies_def)
    from IH Some q show ?thesis
      unfolding r st1
      by (simp add: length_sense_rows len)
  qed
qed

lemma file_words_ids:
  "row \<in> set (file_words lang_code wid ls) \<Longrightarrow>
     wid \<le> fst row \<and> fst row < wid + int (length (filter (qualifies lang_code) ls))"
proof (induction ls arbitrary: wid)
  case Nil
  then show ?case by simp
next
  case (Cons l ls)
  show ?case
  proof (cases "line_entry lang_code l")
    case None
    then have "\<not> qualifies lang_code l" by (simp add: qualifies_def)
    with Cons None show ?thesis by simp
  next
    case (Some result)
    then have q: "qualifies lang_code l" by (simp add: qualifies_def)
    obtain word pos sd ety trs where r: "result = (word, pos, sd, ety, trs)"
      by (cases result) auto
    from Cons.prems Some r consider
      (here) "row = (wid, word, lang_code)"
      | (later) "row \<in> set (file_words lang_code (wid + 1) ls)"
      by auto
    then show ?thesis
    proof cases
      case here
      with q show ?thesis by simp
    next
      case later
      from Cons.IH [OF later] q show ?thesis by simp
    qed
  qed
qed

lemma file_senses_ids:
  "row \<in> set (file_senses lang_code wid sid ls) \<Longrightarrow>
     sid \<le> fst row \<and> fst row < sid + int (length (file_senses lang_code wid sid ls))"
proof (induction ls arbitrary: wid sid)
  case Nil
  then show ?case by simp
next
  case (Cons l ls)
  show ?case
  proof (cases "line_entry lang_code l")
    case None
    with Cons show ?thesis by simp
  next
    case (Some result)
    obtain word pos sd ety trs where r: "result = (word, pos, sd, ety, trs)"
      by (cases result) auto
    from Cons.prems Some r consider
      (here) "row \<in> set (sense_rows wid pos ety sid sd)"
      | (later) "row \<in> set (file_senses lang_code (wid + 1) (sid + int (length sd)) ls)"
      by auto
    then show ?thesis
    proof cases
      case here
      from sense_rows_ids [OF here] Some r show ?thesis
        by (simp add: length_sense_rows)
    next
      case later
      from Cons.IH [OF later] Some r show ?thesis
        by (simp add: length_sense_rows)
    qed
  qed
qed

section \<open>Flushes\<close>

lemma final_flush_Inr:
  assumes "final_flush st = Inr db'"
  shows "words_tbl db' = all_words st"
    and "senses_tbl db' = all_senses st"
    and "translations_tbl db' = all_translations st"
  using assms
  by (auto simp: final_flush_def all_words_def all_senses_def all_translations_def
           split: if_splits dest: flush_batches_Inr)






section \<open>What a step produces, and a whole file\<close>

lemma list_all2_right_witness:
  "list_all2 P xs ys \<Longrightarrow> y \<in> set ys \<Longrightarrow> \<exists>x \<in> set xs. P x y"
  by (induction xs ys rule: list_all2_induct) auto

lemma process_line_cases [consumes 1, case_names skip store]:
  assumes "process_line lang_code n l st = Inr st'"
  obtains m where "line_entry lang_code l = None" and "st' = st\<lparr>out := out st @ m\<rparr>"
  | result where "line_entry lang_code l = Some result"
      and "batch_insert (append_entry lang_code result st) = Inr st'"
proof (cases "line_entry lang_code l")
  case None
  from assms have "\<not> raises lang_code l" by (rule process_line_Inr_no_raise)
  from process_line_skips [OF None this, of n st] assms None that(1) show ?thesis by auto
next
  case (Some result)
  from process_line_qualifies [OF Some, of n st] assms Some that(2) show ?thesis by auto
qed

lemma all_rows_out:
  "all_words (st\<lparr>out := m\<rparr>) = all_words st"
  "all_senses (st\<lparr>out := m\<rparr>) = all_senses st"
  "all_translations (st\<lparr>out := m\<rparr>) = all_translations st"
  by (simp_all add: all_words_def all_senses_def all_translations_def)

lemma produced_words_step:
  assumes "process_line lang_code n l st = Inr st'"
  shows "produced_words st st' =
           (case line_entry lang_code l of None \<Rightarrow> []
            | Some (word, pos, sd, ety, trs) \<Rightarrow> [(word_id st, word, lang_code)])"
  using assms
proof (cases rule: process_line_cases)
  case (skip m)
  then show ?thesis by (simp add: produced_words_def all_rows_out)
next
  case (store result)
  obtain word pos sd ety trs where r: "result = (word, pos, sd, ety, trs)"
    by (cases result) auto
  from batch_insert_Inr(1) [OF store(2)] store(1) show ?thesis
    by (simp add: r produced_words_def append_entry_rows)
qed

lemma produced_senses_step:
  assumes "process_line lang_code n l st = Inr st'"
  shows "produced_senses st st' =
           (case line_entry lang_code l of None \<Rightarrow> []
            | Some (word, pos, sd, ety, trs) \<Rightarrow>
                sense_rows (word_id st) pos ety (sense_id st) sd)"
  using assms
proof (cases rule: process_line_cases)
  case (skip m)
  then show ?thesis by (simp add: produced_senses_def all_rows_out)
next
  case (store result)
  obtain word pos sd ety trs where r: "result = (word, pos, sd, ety, trs)"
    by (cases result) auto
  from batch_insert_Inr(2) [OF store(2)] store(1) show ?thesis
    by (simp add: r produced_senses_def append_entry_rows)
qed


lemma line_entry_SomeD:
  assumes "line_entry lang_code (Decoded (JObj entry)) = Some result"
  shows "dict_get entry ''lang_code'' (JStr '''') = JStr lang_code"
    and "process_entry entry lang_code = Inr (Some result)"
  using assms by (auto split: if_splits sum.splits option.splits)


lemma process_file_Inr_no_raise:
  "process_file db f lang_code w s = Inr r \<Longrightarrow> \<forall>l \<in> set (file_lines f). \<not> raises lang_code l"
  by (auto simp: process_file_def split: sum.splits dest: lines_loop_Inr_no_raise)

text \<open>
  A call that returns has loaded the file whole: the tables have gained the rows of the
  file's records, in order, whatever the number of flushes was, and the cursors have
  advanced by the numbers of rows.
\<close>

lemma process_file_rows:
  assumes "process_file db f lang_code w s = Inr (db', out', (w', s', c'))"
  shows "words_tbl db' = words_tbl db @ file_words lang_code w (file_lines f)"
    and "senses_tbl db' = senses_tbl db @ file_senses lang_code w s (file_lines f)"
    and "translations_tbl db' =
           translations_tbl db @ file_translations lang_code s (file_lines f)"
    and "w' = w + int (length (filter (qualifies lang_code) (file_lines f)))"
    and "s' = s + int (length (file_senses lang_code w s (file_lines f)))"
    and "c' = int (length (filter (qualifies lang_code) (file_lines f)))"
proof -
  let ?st0 = "initial_state db f lang_code w s"
  from assms obtain st where loop: "lines_loop lang_code 1 (file_lines f) ?st0 = Inr st"
    and flush: "final_flush st = Inr db'"
    and ids: "w' = word_id st" "s' = sense_id st" "c' = entry_count st"
    by (auto simp: process_file_def split: sum.splits)
  have start: "all_words ?st0 = words_tbl db" "all_senses ?st0 = senses_tbl db"
    "all_translations ?st0 = translations_tbl db" "word_id ?st0 = w" "sense_id ?st0 = s"
    "entry_count ?st0 = 0"
    by (simp_all add: initial_state_def all_words_def all_senses_def all_translations_def)
  note rows = lines_loop_rows [OF loop, unfolded start]
  note tables = final_flush_Inr [OF flush]
  from rows tables ids
  show "words_tbl db' = words_tbl db @ file_words lang_code w (file_lines f)"
    and "senses_tbl db' = senses_tbl db @ file_senses lang_code w s (file_lines f)"
    and "translations_tbl db' =
           translations_tbl db @ file_translations lang_code s (file_lines f)"
    and "w' = w + int (length (filter (qualifies lang_code) (file_lines f)))"
    and "s' = s + int (length (file_senses lang_code w s (file_lines f)))"
    and "c' = int (length (filter (qualifies lang_code) (file_lines f)))"
    by simp_all
qed

text \<open>Every qualifying line gives at least one definition row.\<close>

lemma line_entry_senses_nonempty:
  "line_entry lang_code l = Some (word, pos, sd, ety, trs) \<Longrightarrow> sd \<noteq> []"
proof (induction lang_code l rule: line_entry.induct)
  case (1 lang_code entry)
  from line_entry_SomeD(2) [OF 1] show ?case by (rule process_entry_Some)
qed simp_all

lemma qualifying_le_senses:
  "length (filter (qualifies lang_code) ls) \<le> length (file_senses lang_code wid sid ls)"
proof (induction ls arbitrary: wid sid)
  case Nil
  show ?case by simp
next
  case (Cons l ls)
  show ?case
  proof (cases "line_entry lang_code l")
    case None
    then have "\<not> qualifies lang_code l" by (simp add: qualifies_def)
    with None Cons show ?thesis by simp
  next
    case (Some result)
    then have q: "qualifies lang_code l" by (simp add: qualifies_def)
    obtain word pos sd ety trs where r: "result = (word, pos, sd, ety, trs)"
      by (cases result) auto
    from line_entry_senses_nonempty [OF Some [unfolded r]] have "1 \<le> length sd"
      by (cases sd) auto
    with Cons [of "wid + 1" "sid + int (length sd)"] Some r q show ?thesis
      by (simp add: length_sense_rows)
  qed
qed

section \<open>The printed output does not steer the loop\<close>

lemma data_of_eqD:
  assumes "data_of st1 = data_of st2"
  shows "word_id st1 = word_id st2" and "sense_id st1 = sense_id st2"
    and "entry_count st1 = entry_count st2" and "words_batch st1 = words_batch st2"
    and "senses_batch st1 = senses_batch st2" and "trans_batch st1 = trans_batch st2"
    and "conn st1 = conn st2"
proof -
  have "word_id (data_of st1) = word_id (data_of st2)"
    "sense_id (data_of st1) = sense_id (data_of st2)"
    "entry_count (data_of st1) = entry_count (data_of st2)"
    "words_batch (data_of st1) = words_batch (data_of st2)"
    "senses_batch (data_of st1) = senses_batch (data_of st2)"
    "trans_batch (data_of st1) = trans_batch (data_of st2)"
    "conn (data_of st1) = conn (data_of st2)"
    using assms by simp_all
  then show "word_id st1 = word_id st2" and "sense_id st1 = sense_id st2"
    and "entry_count st1 = entry_count st2" and "words_batch st1 = words_batch st2"
    and "senses_batch st1 = senses_batch st2" and "trans_batch st1 = trans_batch st2"
    and "conn st1 = conn st2"
    by (simp_all add: data_of_def)
qed

lemma data_of_out [simp]: "data_of (st\<lparr>out := m\<rparr>) = data_of st"
  by (simp add: data_of_def)

lemma append_entry_data:
  assumes "data_of st1 = data_of st2"
  shows "data_of (append_entry lang_code result st1) = data_of (append_entry lang_code result st2)"
  using assms
  by (cases st1; cases st2; cases result)
     (simp add: data_of_def append_entry_def Let_def split: prod.splits)

lemma batch_insert_data:
  assumes "data_of st1 = data_of st2"
  shows "map_sum id data_of (batch_insert st1) = map_sum id data_of (batch_insert st2)"
proof -
  note eq = data_of_eqD [OF assms]
  show ?thesis
  proof (cases "entry_count st2 mod BATCH_SIZE = 0")
    case False
    with eq assms show ?thesis by (simp add: batch_insert_def)
  next
    case True
    show ?thesis
    proof (cases "flush_batches (conn st2) (words_batch st2) (senses_batch st2) (trans_batch st2)")
      case (Inl e)
      with True eq show ?thesis by (simp add: batch_insert_def)
    next
      case (Inr db')
      have "data_of (st1\<lparr>words_batch := [], senses_batch := [], trans_batch := [],
                         conn := db', out := m1\<rparr>) =
            data_of (st2\<lparr>words_batch := [], senses_batch := [], trans_batch := [],
                         conn := db', out := m2\<rparr>)" for m1 m2
        using assms by (cases st1; cases st2) (simp add: data_of_def)
      with Inr True eq show ?thesis by (simp add: batch_insert_def)
    qed
  qed
qed

lemma process_line_data:
  assumes "data_of st1 = data_of st2"
  shows "map_sum id data_of (process_line lang_code n1 l st1) =
         map_sum id data_of (process_line lang_code n2 l st2)"
proof (cases "line_entry lang_code l")
  case (Some result)
  from process_line_qualifies [OF Some] batch_insert_data [OF append_entry_data [OF assms]]
  show ?thesis by simp
next
  case None
  show ?thesis
  proof (cases "raises lang_code l")
    case False
    from process_line_skips [OF None False, of n1 st1]
         process_line_skips [OF None False, of n2 st2] assms
    show ?thesis by auto
  next
    case True
    then have "\<exists>e. \<forall>n st. process_line lang_code n l st = Inl e"
      by (induction lang_code l rule: raises.induct)
         (auto simp: Let_def split: sum.splits)
    then show ?thesis by auto
  qed
qed

lemma lines_loop_data:
  assumes "data_of st1 = data_of st2"
  shows "map_sum id data_of (lines_loop lang_code n1 ls st1) =
         map_sum id data_of (lines_loop lang_code n2 ls st2)"
  using assms
proof (induction ls arbitrary: n1 n2 st1 st2)
  case Nil
  then show ?case by simp
next
  case (Cons l ls)
  from process_line_data [OF Cons.prems, of lang_code n1 l n2]
  consider (fail) e where "process_line lang_code n1 l st1 = Inl e"
      "process_line lang_code n2 l st2 = Inl e"
    | (go) s1 s2 where "process_line lang_code n1 l st1 = Inr s1"
      "process_line lang_code n2 l st2 = Inr s2" "data_of s1 = data_of s2"
    by (cases "process_line lang_code n1 l st1"; cases "process_line lang_code n2 l st2") auto
  then show ?case
  proof cases
    case fail
    then show ?thesis by simp
  next
    case go
    with Cons.IH [OF go(3), of "n1 + 1" "n2 + 1"] show ?thesis by simp
  qed
qed

lemma lines_loop_append:
  "lines_loop lang_code n (xs @ ys) st =
     (case lines_loop lang_code n xs st of
        Inl e \<Rightarrow> Inl e
      | Inr st' \<Rightarrow> lines_loop lang_code (n + int (length xs)) ys st')"
  by (induction xs arbitrary: n st) (auto split: sum.splits simp: algebra_simps)

lemma final_flush_data:
  "data_of st1 = data_of st2 \<Longrightarrow> final_flush st1 = final_flush st2"
  using data_of_eqD [of st1 st2] by (simp add: final_flush_def)

section \<open>The rows of a file: keys and fields\<close>










section \<open>The claims\<close>

lemmas extractor_defs =
  process_entry_def etymology_of_def dict_get_def target_langs_for_def
  TARGET_TRANSLATIONS_def py_or_def Let_def

lemmas loader_defs =
  process_file_def initial_state_def append_entry_def batch_insert_def final_flush_def
  flush_batches_def bind_int_def fits_int64_def stored_null_def BATCH_SIZE_def

lemmas example_defs =
  start_state_def initial_state_def empty_db_def cat_state_def gato_state_def
  empty_gloss_state_def cat_result_def gato_result_def

text \<open>Two evaluations the witnesses below share.\<close>

lemma cat_step:
  "process_entry cat_entry ''en'' = Inr (Some cat_result)"
  "process_line ''en'' 1 (Decoded (JObj cat_entry)) (start_state ''en'') = Inr cat_state"
  by (simp_all add: cat_entry_def extractor_defs loader_defs example_defs)

lemma gato_step:
  "process_entry gato_entry ''es'' = Inr (Some gato_result)"
  "process_line ''es'' 1 (Decoded (JObj gato_entry)) (start_state ''es'') = Inr gato_state"
  by (simp_all add: gato_entry_def extractor_defs loader_defs example_defs)

lemma example_rows:
  "produced_senses (start_state ''en'') cat_state =
     [(1, 1, JStr ''noun'', JStr ''a small domesticated feline'', JNull)]"
  "produced_translations (start_state ''en'') cat_state =
     [(1, JStr ''es'', JStr ''gato'', JNull)]"
  "produced_senses (start_state ''es'') gato_state =
     [(1, 1, JStr '''', JStr ''felino'', JStr ''Del latin cattus.''),
      (2, 1, JStr '''', JStr ''astuto'', JStr ''Del latin cattus.'')]"
  "produced_translations (start_state ''es'') gato_state =
     [(1, JStr ''en'', JStr ''cat'', JStr ''kat''), (1, JStr ''en'', JStr ''tomcat'', JNull)]"
  by (simp_all add: produced_senses_def produced_translations_def all_senses_def
        all_translations_def example_defs)

text \<open>
  C1. On a fresh database and with both cursors at 1, as \<^verbatim>\<open>main\<close> starts the first file,
  the line of the end-to-end scenario processed as language \<^verbatim>\<open>en\<close> leaves exactly one
  entry row \<^verbatim>\<open>("cat", "en")\<close>, exactly one definition row with part of speech \<^verbatim>\<open>noun\<close> and
  gloss \<^verbatim>\<open>a small domesticated feline\<close>, and exactly one cross-reference row with target
  language \<^verbatim>\<open>es\<close>, target text \<^verbatim>\<open>gato\<close> and no romanization. The cross-reference row
  carries the identifier of the definition row, which carries that of the entry row.
  The same holds from any database and cursors when the two identifiers fit in 64 bits
  and are not yet keys of their tables: the rows are appended, the cross-reference row
  carrying the definition cursor \<open>s\<close> and the definition row the entry cursor \<open>w\<close>.
\<close>

theorem C1_cat_end_to_end:
  "process_file empty_db \<lparr>file_name = name, file_lines = [Decoded (JObj cat_entry)]\<rparr> ''en'' 1 1 =
     Inr (\<lparr>words_tbl = [(1, JStr ''cat'', ''en'')],
           senses_tbl = [(1, 1, JStr ''noun'', JStr ''a small domesticated feline'', JNull)],
           translations_tbl = [(1, JStr ''es'', JStr ''gato'', JNull)],
           commits = 1\<rparr>,
          [Processing name ''en'', Completed 1],
          (2, 2, 1)) \<and>
   (fits_int64 w \<and> fits_int64 s \<and> w \<notin> set (map fst (words_tbl db)) \<and>
    s \<notin> set (map fst (senses_tbl db)) \<longrightarrow>
    process_file db \<lparr>file_name = name, file_lines = [Decoded (JObj cat_entry)]\<rparr> ''en'' w s =
      Inr (\<lparr>words_tbl = words_tbl db @ [(w, JStr ''cat'', ''en'')],
            senses_tbl =
              senses_tbl db @ [(s, w, JStr ''noun'', JStr ''a small domesticated feline'', JNull)],
            translations_tbl = translations_tbl db @ [(s, JStr ''es'', JStr ''gato'', JNull)],
            commits = commits db + 1\<rparr>,
           [Processing name ''en'', Completed 1],
           (w + 1, s + 1, 1)))"
proof (intro conjI impI)
  show "process_file empty_db \<lparr>file_name = name, file_lines = [Decoded (JObj cat_entry)]\<rparr>
      ''en'' 1 1 =
     Inr (\<lparr>words_tbl = [(1, JStr ''cat'', ''en'')],
           senses_tbl = [(1, 1, JStr ''noun'', JStr ''a small domesticated feline'', JNull)],
           translations_tbl = [(1, JStr ''es'', JStr ''gato'', JNull)],
           commits = 1\<rparr>,
          [Processing name ''en'', Completed 1],
          (2, 2, 1))"
    by (simp add: cat_entry_def empty_db_def extractor_defs loader_defs)
next
  assume "fits_int64 w \<and> fits_int64 s \<and> w \<notin> set (map fst (words_tbl db)) \<and>
    s \<notin> set (map fst (senses_tbl db))"
  then show "process_file db \<lparr>file_name = name, file_lines = [Decoded (JObj cat_entry)]\<rparr>
      ''en'' w s =
      Inr (\<lparr>words_tbl = words_tbl db @ [(w, JStr ''cat'', ''en'')],
            senses_tbl =
              senses_tbl db @ [(s, w, JStr ''noun'', JStr ''a small domesticated feline'', JNull)],
            translations_tbl = translations_tbl db @ [(s, JStr ''es'', JStr ''gato'', JNull)],
            commits = commits db + 1\<rparr>,
           [Processing name ''en'', Completed 1],
           (w + 1, s + 1, 1))"
    by (simp add: cat_entry_def extractor_defs process_file_def initial_state_def
          append_entry_def batch_insert_def final_flush_def flush_batches_def bind_int_def
          stored_null_def BATCH_SIZE_def)
qed

theorem C1_cat_end_to_end_witness:
  "process_file
     \<lparr>words_tbl = [(1, JStr ''bank'', ''en'')],
      senses_tbl = [(1, 1, JStr '''', JStr ''a financial institution'', JNull),
                    (2, 1, JStr '''', JStr ''the side of a river'', JNull)],
      translations_tbl = [],
      commits = 1\<rparr>
     \<lparr>file_name = ''en.jsonl'', file_lines = [Decoded (JObj cat_entry)]\<rparr> ''en'' 2 3 =
     Inr (\<lparr>words_tbl = [(1, JStr ''bank'', ''en''), (2, JStr ''cat'', ''en'')],
           senses_tbl = [(1, 1, JStr '''', JStr ''a financial institution'', JNull),
                         (2, 1, JStr '''', JStr ''the side of a river'', JNull),
                         (3, 2, JStr ''noun'', JStr ''a small domesticated feline'', JNull)],
           translations_tbl = [(3, JStr ''es'', JStr ''gato'', JNull)],
           commits = 2\<rparr>,
          [Processing ''en.jsonl'' ''en'', Completed 1],
          (3, 4, 1))"
  using C1_cat_end_to_end
          [of "''en.jsonl''" 2 3
              "\<lparr>words_tbl = [(1, JStr ''bank'', ''en'')],
                senses_tbl = [(1, 1, JStr '''', JStr ''a financial institution'', JNull),
                              (2, 1, JStr '''', JStr ''the side of a river'', JNull)],
                translations_tbl = [],
                commits = 1\<rparr>"]
  by (simp add: fits_int64_def)

text \<open>
  C2, as stated, fails. The extractor tests that the list \<^verbatim>\<open>glosses\<close> is non-empty, never
  that its first element is: the record
  \<^verbatim>\<open>{"word":"cat","lang_code":"en","senses":[{"glosses":[""]}]}\<close> is accepted and its
  definition row is stored with the empty string as gloss.
\<close>

theorem C2_empty_gloss_counterexample:
  "process_file empty_db
     \<lparr>file_name = ''en.jsonl'', file_lines = [Decoded (JObj empty_gloss_entry)]\<rparr> ''en'' 1 1 =
     Inr (\<lparr>words_tbl = [(1, JStr ''cat'', ''en'')],
           senses_tbl = [(1, 1, JStr '''', JStr '''', JNull)],
           translations_tbl = [],
           commits = 1\<rparr>,
          [Processing ''en.jsonl'' ''en'', Completed 1],
          (2, 2, 1))"
  by (simp add: empty_gloss_entry_def empty_db_def extractor_defs loader_defs)

text \<open>
  C2, amended. Every definition row a record produces takes its gloss from a sense of
  the record whose \<^verbatim>\<open>glosses\<close> value is non-empty: the gloss is the first element of that
  value. Nothing is said of the gloss itself, which can be the empty string.
\<close>

theorem C2_gloss_from_nonempty_list:
  assumes "process_line lang_code n (Decoded (JObj entry)) st = Inr st'"
  shows "\<forall>(sid, wid, pos, gloss, ety) \<in> set (produced_senses st st').
           \<exists>sense \<in> set (sense_list entry). has_gloss sense \<and> first_gloss sense = Inr gloss"
proof (cases "line_entry lang_code (Decoded (JObj entry))")
  case None
  with produced_senses_step [OF assms] show ?thesis by simp
next
  case (Some result)
  obtain word pos sd ety trs where r: "result = (word, pos, sd, ety, trs)"
    by (cases result) auto
  from line_entry_SomeD(2) [OF Some]
  have "process_entry entry lang_code = Inr (Some (word, pos, sd, ety, trs))"
    by (simp add: r)
  then have "senses_loop (sense_list entry) [] = Inr sd" by (rule process_entry_Some)
  from senses_loop_Inr [OF this]
  have all2: "list_all2 (\<lambda>s (g, ts). first_gloss s = Inr g \<and> ts = [])
                (filter has_gloss (sense_list entry)) sd"
    by simp
  have "\<exists>sense \<in> set (sense_list entry). has_gloss sense \<and> first_gloss sense = Inr g"
    if "(i, w, p, g, e) \<in> set (sense_rows (word_id st) pos ety (sense_id st) sd)" for i w p g e
  proof -
    from sense_rows_fields [OF that] obtain ts where "(g, ts) \<in> set sd" by auto
    from list_all2_right_witness [OF all2 this] show ?thesis by auto
  qed
  with produced_senses_step [OF assms] Some r show ?thesis by auto
qed

theorem C2_gloss_from_nonempty_list_witness:
  "process_entry empty_gloss_entry ''en'' =
     Inr (Some (JStr ''cat'', JStr '''', [(JStr '''', [])], JNull, [])) \<and>
   process_line ''en'' 1 (Decoded (JObj empty_gloss_entry)) (start_state ''en'') =
     Inr empty_gloss_state \<and>
   produced_senses (start_state ''en'') empty_gloss_state =
     [(1, 1, JStr '''', JStr '''', JNull)] \<and>
   (\<exists>sense \<in> set (sense_list empty_gloss_entry).
      has_gloss sense \<and> first_gloss sense = Inr (JStr ''''))"
proof -
  have acc: "process_entry empty_gloss_entry ''en'' =
      Inr (Some (JStr ''cat'', JStr '''', [(JStr '''', [])], JNull, []))"
    by (simp add: empty_gloss_entry_def extractor_defs)
  have step: "process_line ''en'' 1 (Decoded (JObj empty_gloss_entry)) (start_state ''en'') =
      Inr empty_gloss_state"
    by (simp add: empty_gloss_entry_def extractor_defs loader_defs example_defs)
  have rows: "produced_senses (start_state ''en'') empty_gloss_state =
      [(1, 1, JStr '''', JStr '''', JNull)]"
    by (simp add: produced_senses_def all_senses_def example_defs)
  from C2_gloss_from_nonempty_list [OF step] acc rows step show ?thesis by simp
qed








text \<open>
  C6, as stated, fails. Entries and definitions are numbered by two separate cursors,
  and a record with several senses moves the definition cursor ahead of the entry
  cursor. The first file holds one record with two senses: its definition rows get the
  identifiers 1 and 2 and the cursors returned are 2 and 3. The second file's entry row
  then gets the identifier 2, which is not greater than the identifier 2 of a
  definition row of the first file.
\<close>

theorem C6_entry_id_against_definition_id_counterexample:
  "process_file empty_db bank_file ''en'' 1 1 =
     Inr (\<lparr>words_tbl = [(1, JStr ''bank'', ''en'')],
           senses_tbl = [(1, 1, JStr '''', JStr ''a financial institution'', JNull),
                         (2, 1, JStr '''', JStr ''the side of a river'', JNull)],
           translations_tbl = [],
           commits = 1\<rparr>,
          [Processing ''en.jsonl'' ''en'', Completed 1], (2, 3, 1)) \<and>
   process_file
     \<lparr>words_tbl = [(1, JStr ''bank'', ''en'')],
      senses_tbl = [(1, 1, JStr '''', JStr ''a financial institution'', JNull),
                    (2, 1, JStr '''', JStr ''the side of a river'', JNull)],
      translations_tbl = [],
      commits = 1\<rparr> gato_file ''es'' 2 3 =
     Inr (\<lparr>words_tbl = [(1, JStr ''bank'', ''en''), (2, JStr ''gato'', ''es'')],
           senses_tbl = [(1, 1, JStr '''', JStr ''a financial institution'', JNull),
                         (2, 1, JStr '''', JStr ''the side of a river'', JNull),
                         (3, 2, JStr '''', JStr ''felino'', JStr ''Del latin cattus.''),
                         (4, 2, JStr '''', JStr ''astuto'', JStr ''Del latin cattus.'')],
           translations_tbl = [(3, JStr ''en'', JStr ''cat'', JStr ''kat''),
                               (3, JStr ''en'', JStr ''tomcat'', JNull)],
           commits = 2\<rparr>,
          [Processing ''es.jsonl'' ''es'', Completed 1], (3, 5, 1)) \<and>
   \<not> fst (2 :: int, 1 :: int, JStr '''', JStr ''the side of a river'', JNull) <
       fst (2 :: int, JStr ''gato'', ''es'')"
  by (simp add: bank_file_def bank_entry_def gato_file_def gato_entry_def empty_db_def
        extractor_defs loader_defs)

text \<open>
  C6, amended. Two files are processed one after the other, the second call given the
  cursors the first returned, as \<^verbatim>\<open>main\<close> does. Each call only appends to the tables.
  Identifiers grow within their own table: every entry row the second call adds has an
  identifier greater than that of every entry row the first call added, and every
  definition row the second call adds has an identifier greater than that of every
  definition row the first call added. When the first call starts with the definition
  cursor not below the entry cursor, as in \<^verbatim>\<open>main\<close> where both start at 1, every definition
  row of the second call also has an identifier greater than that of every entry row
  of the first. Nothing is said of an entry identifier of the second file against a
  definition identifier of the first.
\<close>

theorem C6_identifiers_grow_per_table:
  assumes "process_file db0 f1 lang1 w0 s0 = Inr (db1, out1, (w1, s1, n1))"
    and "process_file db1 f2 lang2 w1 s1 = Inr (db2, out2, (w2, s2, n2))"
  shows "words_tbl db1 = words_tbl db0 @ new_rows (words_tbl db0) (words_tbl db1) \<and>
         words_tbl db2 = words_tbl db1 @ new_rows (words_tbl db1) (words_tbl db2) \<and>
         senses_tbl db1 = senses_tbl db0 @ new_rows (senses_tbl db0) (senses_tbl db1) \<and>
         senses_tbl db2 = senses_tbl db1 @ new_rows (senses_tbl db1) (senses_tbl db2) \<and>
         (\<forall>r1 \<in> set (new_rows (words_tbl db0) (words_tbl db1)).
            \<forall>r2 \<in> set (new_rows (words_tbl db1) (words_tbl db2)). fst r1 < fst r2) \<and>
         (\<forall>r1 \<in> set (new_rows (senses_tbl db0) (senses_tbl db1)).
            \<forall>r2 \<in> set (new_rows (senses_tbl db1) (senses_tbl db2)). fst r1 < fst r2) \<and>
         (w0 \<le> s0 \<longrightarrow>
            (\<forall>r1 \<in> set (new_rows (words_tbl db0) (words_tbl db1)).
               \<forall>r2 \<in> set (new_rows (senses_tbl db1) (senses_tbl db2)). fst r1 < fst r2))"
proof -
  note first = process_file_rows(4,5,1,2) [OF assms(1)]
  note second = process_file_rows(1,2) [OF assms(2)]
  have new:
    "new_rows (words_tbl db0) (words_tbl db1) = file_words lang1 w0 (file_lines f1)"
    "new_rows (senses_tbl db0) (senses_tbl db1) = file_senses lang1 w0 s0 (file_lines f1)"
    "new_rows (words_tbl db1) (words_tbl db2) = file_words lang2 w1 (file_lines f2)"
    "new_rows (senses_tbl db1) (senses_tbl db2) = file_senses lang2 w1 s1 (file_lines f2)"
    by (simp_all add: new_rows_def first(3,4) second)
  have entries: "fst r1 < fst r2"
    if "r1 \<in> set (file_words lang1 w0 (file_lines f1))"
      and "r2 \<in> set (file_words lang2 w1 (file_lines f2))" for r1 r2
    using file_words_ids [OF that(1)] file_words_ids [OF that(2)] first(1) by simp
  have definitions: "fst r1 < fst r2"
    if "r1 \<in> set (file_senses lang1 w0 s0 (file_lines f1))"
      and "r2 \<in> set (file_senses lang2 w1 s1 (file_lines f2))" for r1 r2
    using file_senses_ids [OF that(1)] file_senses_ids [OF that(2)] first(2) by simp
  have across: "fst r1 < fst r2"
    if "w0 \<le> s0" and "r1 \<in> set (file_words lang1 w0 (file_lines f1))"
      and "r2 \<in> set (file_senses lang2 w1 s1 (file_lines f2))" for r1 r2
  proof -
    from qualifying_le_senses [of lang1 "file_lines f1" w0 s0] that(1) first(1,2)
    have "w1 \<le> s1" by simp
    with file_words_ids [OF that(2)] file_senses_ids [OF that(3)] first(1)
    show ?thesis by simp
  qed
  show ?thesis
    unfolding new using first(3,4) second entries definitions across by blast
qed

theorem C6_identifiers_grow_per_table_witness:
  "process_file empty_db cat_file ''en'' 1 1 =
     Inr (\<lparr>words_tbl = [(1, JStr ''cat'', ''en'')],
           senses_tbl = [(1, 1, JStr ''noun'', JStr ''a small domesticated feline'', JNull)],
           translations_tbl = [(1, JStr ''es'', JStr ''gato'', JNull)],
           commits = 1\<rparr>,
          [Processing ''en.jsonl'' ''en'', Completed 1], (2, 2, 1)) \<and>
   process_file
     \<lparr>words_tbl = [(1, JStr ''cat'', ''en'')],
      senses_tbl = [(1, 1, JStr ''noun'', JStr ''a small domesticated feline'', JNull)],
      translations_tbl = [(1, JStr ''es'', JStr ''gato'', JNull)],
      commits = 1\<rparr> gato_file ''es'' 2 2 =
     Inr (\<lparr>words_tbl = [(1, JStr ''cat'', ''en''), (2, JStr ''gato'', ''es'')],
           senses_tbl =
             [(1, 1, JStr ''noun'', JStr ''a small domesticated feline'', JNull),
              (2, 2, JStr '''', JStr ''felino'', JStr ''Del latin cattus.''),
              (3, 2, JStr '''', JStr ''astuto'', JStr ''Del latin cattus.'')],
           translations_tbl =
             [(1, JStr ''es'', JStr ''gato'', JNull),
              (2, JStr ''en'', JStr ''cat'', JStr ''kat''),
              (2, JStr ''en'', JStr ''tomcat'', JNull)],
           commits = 2\<rparr>,
          [Processing ''es.jsonl'' ''es'', Completed 1], (3, 4, 1)) \<and>
   new_rows [] [(1, JStr ''cat'', ''en'')] = [(1 :: int, JStr ''cat'', ''en'')] \<and>
   new_rows [(1 :: int, JStr ''cat'', ''en'')]
     [(1, JStr ''cat'', ''en''), (2, JStr ''gato'', ''es'')] = [(2, JStr ''gato'', ''es'')] \<and>
   (1 :: int) \<le> 1 \<and> (1 :: int) < 2"
proof -
  let ?db1 = "\<lparr>words_tbl = [(1, JStr ''cat'', ''en'')],
      senses_tbl = [(1, 1, JStr ''noun'', JStr ''a small domesticated feline'', JNull)],
      translations_tbl = [(1, JStr ''es'', JStr ''gato'', JNull)],
      commits = 1\<rparr>"
  let ?db2 = "\<lparr>words_tbl = [(1, JStr ''cat'', ''en''), (2, JStr ''gato'', ''es'')],
           senses_tbl =
             [(1, 1, JStr ''noun'', JStr ''a small domesticated feline'', JNull),
              (2, 2, JStr '''', JStr ''felino'', JStr ''Del latin cattus.''),
              (3, 2, JStr '''', JStr ''astuto'', JStr ''Del latin cattus.'')],
           translations_tbl =
             [(1, JStr ''es'', JStr ''gato'', JNull),
              (2, JStr ''en'', JStr ''cat'', JStr ''kat''),
              (2, JStr ''en'', JStr ''tomcat'', JNull)],
           commits = 2\<rparr>"
  have first: "process_file empty_db cat_file ''en'' 1 1 =
      Inr (?db1, [Processing ''en.jsonl'' ''en'', Completed 1], (2, 2, 1))"
    by (simp add: cat_file_def cat_entry_def empty_db_def extractor_defs loader_defs)
  have second: "process_file ?db1 gato_file ''es'' 2 2 =
      Inr (?db2, [Processing ''es.jsonl'' ''es'', Completed 1], (3, 4, 1))"
    by (simp add: gato_file_def gato_entry_def extractor_defs loader_defs)
  from C6_identifiers_grow_per_table [OF first second] first second
  show ?thesis by (simp add: empty_db_def new_rows_def)
qed




text \<open>
  C8. A decoded record whose \<^verbatim>\<open>lang_code\<close> is not the language being processed leaves the
  state of the loop exactly as it was: no row, no cursor moved, nothing printed. The
  result does not depend on the extractor, so it is the same for a record on which the
  extractor would raise. The line of the end-to-end scenario, processed as language
  \<^verbatim>\<open>es\<close>, leaves the database and the cursors as they were and counts no entry.
\<close>

theorem C8_other_language_inert:
  "(dict_get entry ''lang_code'' (JStr '''') \<noteq> JStr lang_code \<longrightarrow>
      process_line lang_code n (Decoded (JObj entry)) st = Inr st) \<and>
   process_file db \<lparr>file_name = name, file_lines = [Decoded (JObj cat_entry)]\<rparr> ''es'' w s =
     Inr (db, [Processing name ''es'', Completed 0], (w, s, 0))"
  by (simp add: Let_def process_file_def initial_state_def final_flush_def cat_entry_def
        dict_get_def)

theorem C8_other_language_inert_witness:
  "process_entry french_entry ''en'' = Inl TypeError \<and>
   process_line ''en'' 1 (Decoded (JObj french_entry)) (start_state ''en'') =
     Inr (start_state ''en'') \<and>
   process_file empty_db cat_file ''es'' 1 1 =
     Inr (empty_db, [Processing ''en.jsonl'' ''es'', Completed 0], (1, 1, 0))"
proof -
  have lang: "dict_get french_entry ''lang_code'' (JStr '''') \<noteq> JStr ''en''"
    by (simp add: french_entry_def dict_get_def)
  have raises: "process_entry french_entry ''en'' = Inl TypeError"
    by (simp add: french_entry_def extractor_defs)
  from C8_other_language_inert
         [of french_entry "''en''" 1 "start_state ''en''" empty_db "''en.jsonl''" 1 1]
       lang raises
  show ?thesis by (simp add: cat_file_def)
qed

text \<open>
  C9, as stated, fails. The \<^verbatim>\<open>try\<close> of the loop covers \<^verbatim>\<open>json.loads\<close> alone and catches
  \<^verbatim>\<open>JSONDecodeError\<close> alone. The line \<^verbatim>\<open>5\<close> is valid JSON that is no record: \<^verbatim>\<open>json.loads\<close>
  returns the integer, \<^verbatim>\<open>entry.get("lang_code", "")\<close> raises AttributeError outside the
  \<^verbatim>\<open>try\<close>, and the run ends there with no warning, losing the record of the line before
  it, which was still in the batch. A line on which \<^verbatim>\<open>json.loads\<close> raises another
  exception, such as ValueError, ends the run as well.
\<close>

theorem C9_non_record_line_aborts_counterexample:
  "process_line ''en'' 1 (Decoded (JInt 5)) (start_state ''en'') = Inl AttributeError \<and>
   process_file empty_db
     \<lparr>file_name = ''en.jsonl'',
      file_lines = [Decoded (JObj cat_entry), Decoded (JInt 5)]\<rparr> ''en'' 1 1 =
     Inl AttributeError \<and>
   process_file empty_db
     \<lparr>file_name = ''en.jsonl'',
      file_lines = [Decoded (JObj cat_entry), Failing ValueError]\<rparr> ''en'' 1 1 =
     Inl ValueError"
  by (simp add: cat_entry_def empty_db_def extractor_defs loader_defs)

text \<open>
  C9, amended. A line on which \<^verbatim>\<open>json.loads\<close> raises \<^verbatim>\<open>JSONDecodeError\<close> makes the loop
  print one warning, with the line's number and the decoder's message, and go on with
  the next line; nothing else of the state changes. Such a line never aborts the run
  and contributes nothing to it: a file with the line and the file without it end
  alike, in the same exception or with the same database, cursors and count. A line
  that decodes to a value that is no object, or on which reading or decoding raises
  another exception, ends the run.
\<close>

theorem C9_undecodable_line_skipped:
  "process_line lang_code n (Undecodable e) st = Inr (st\<lparr>out := out st @ [Warning n e]\<rparr>) \<and>
   lines_loop lang_code n (Undecodable e # ls) st =
     lines_loop lang_code (n + 1) ls (st\<lparr>out := out st @ [Warning n e]\<rparr>) \<and>
   map_sum id (\<lambda>(db', out', ids). (db', ids))
     (process_file db \<lparr>file_name = name, file_lines = xs @ Undecodable e # ys\<rparr> lang_code w s) =
   map_sum id (\<lambda>(db', out', ids). (db', ids))
     (process_file db \<lparr>file_name = name, file_lines = xs @ ys\<rparr> lang_code w s) \<and>
   process_line lang_code n (Decoded (JNull)) st = Inl AttributeError \<and>
   process_line lang_code n (Decoded (JBool b)) st = Inl AttributeError \<and>
   process_line lang_code n (Decoded (JInt i)) st = Inl AttributeError \<and>
   process_line lang_code n (Decoded (JFloat x)) st = Inl AttributeError \<and>
   process_line lang_code n (Decoded (JStr str)) st = Inl AttributeError \<and>
   process_line lang_code n (Decoded (JArr vs)) st = Inl AttributeError \<and>
   process_line lang_code n (Failing err) st = Inl err"
proof -
  let ?f1 = "\<lparr>file_name = name, file_lines = xs @ Undecodable e # ys\<rparr>"
  let ?f2 = "\<lparr>file_name = name, file_lines = xs @ ys\<rparr>"
  let ?st0 = "initial_state db ?f2 lang_code w s"
  have st0: "initial_state db ?f1 lang_code w s = ?st0"
    by (simp add: initial_state_def)
  have loops: "map_sum id data_of (lines_loop lang_code 1 (xs @ Undecodable e # ys) ?st0) =
      map_sum id data_of (lines_loop lang_code 1 (xs @ ys) ?st0)"
  proof (cases "lines_loop lang_code 1 xs ?st0")
    case (Inl err)
    then show ?thesis by (simp add: lines_loop_append)
  next
    case (Inr st1)
    have "map_sum id data_of
        (lines_loop lang_code (1 + int (length xs) + 1) ys
           (st1\<lparr>out := out st1 @ [Warning (1 + int (length xs)) e]\<rparr>)) =
      map_sum id data_of (lines_loop lang_code (1 + int (length xs)) ys st1)"
      by (rule lines_loop_data) simp
    with Inr show ?thesis by (simp add: lines_loop_append)
  qed
  have whole: "map_sum id (\<lambda>(db', out', ids). (db', ids)) (process_file db ?f1 lang_code w s) =
      map_sum id (\<lambda>(db', out', ids). (db', ids)) (process_file db ?f2 lang_code w s)"
  proof (cases "lines_loop lang_code 1 (xs @ Undecodable e # ys) ?st0")
    case (Inl err)
    with loops have "lines_loop lang_code 1 (xs @ ys) ?st0 = Inl err"
      by (cases "lines_loop lang_code 1 (xs @ ys) ?st0") simp_all
    with Inl show ?thesis by (simp add: process_file_def st0)
  next
    case (Inr st1)
    with loops obtain st2 where st2: "lines_loop lang_code 1 (xs @ ys) ?st0 = Inr st2"
      and same: "data_of st1 = data_of st2"
      by (cases "lines_loop lang_code 1 (xs @ ys) ?st0") simp_all
    from final_flush_data [OF same] data_of_eqD [OF same] Inr st2 show ?thesis
      by (simp add: process_file_def st0 split: sum.splits)
  qed
  show ?thesis
    by (intro conjI whole) simp_all
qed

theorem C9_undecodable_line_skipped_witness:
  "process_file empty_db
     \<lparr>file_name = ''en.jsonl'',
      file_lines = [Undecodable ''Expecting value'', Decoded (JObj cat_entry)]\<rparr> ''en'' 1 1 =
     Inr (\<lparr>words_tbl = [(1, JStr ''cat'', ''en'')],
           senses_tbl = [(1, 1, JStr ''noun'', JStr ''a small domesticated feline'', JNull)],
           translations_tbl = [(1, JStr ''es'', JStr ''gato'', JNull)],
           commits = 1\<rparr>,
          [Processing ''en.jsonl'' ''en'', Warning 1 ''Expecting value'', Completed 1],
          (2, 2, 1)) \<and>
   map_sum id (\<lambda>(db', out', ids). (db', ids))
     (process_file empty_db
        \<lparr>file_name = ''en.jsonl'', file_lines = [] @ [Decoded (JObj cat_entry)]\<rparr> ''en'' 1 1) =
     Inr (\<lparr>words_tbl = [(1, JStr ''cat'', ''en'')],
           senses_tbl = [(1, 1, JStr ''noun'', JStr ''a small domesticated feline'', JNull)],
           translations_tbl = [(1, JStr ''es'', JStr ''gato'', JNull)],
           commits = 1\<rparr>,
          (2, 2, 1))"
proof -
  have "process_file empty_db
     \<lparr>file_name = ''en.jsonl'',
      file_lines = [] @ Undecodable ''Expecting value'' # [Decoded (JObj cat_entry)]\<rparr> ''en'' 1 1 =
     Inr (\<lparr>words_tbl = [(1, JStr ''cat'', ''en'')],
           senses_tbl = [(1, 1, JStr ''noun'', JStr ''a small domesticated feline'', JNull)],
           translations_tbl = [(1, JStr ''es'', JStr ''gato'', JNull)],
           commits = 1\<rparr>,
          [Processing ''en.jsonl'' ''en'', Warning 1 ''Expecting value'', Completed 1],
          (2, 2, 1))"
    by (simp add: cat_entry_def empty_db_def extractor_defs loader_defs)
  with C9_undecodable_line_skipped
         [THEN conjunct2, THEN conjunct2, THEN conjunct1,
          of empty_db "''en.jsonl''" "[]" "''Expecting value''" "[Decoded (JObj cat_entry)]"
             "''en''" 1 1]
  show ?thesis by simp
qed

text \<open>
  C10. Every definition row a record produces carries the record's own part of speech,
  \<^verbatim>\<open>entry.get("pos", "")\<close>, the same for all of them; for a record without the field
  \<^verbatim>\<open>pos\<close> that is the empty string, not \<^verbatim>\<open>None\<close>. A record in the language being processed
  that the extractor accepts does produce definition rows.
\<close>

theorem C10_part_of_speech:
  assumes "process_line lang_code n (Decoded (JObj entry)) st = Inr st'"
  shows "(\<forall>(sid, wid, pos, gloss, ety) \<in> set (produced_senses st st').
            pos = dict_get entry ''pos'' (JStr '''')) \<and>
         (map_of entry ''pos'' = None \<longrightarrow>
            (\<forall>(sid, wid, pos, gloss, ety) \<in> set (produced_senses st st'). pos = JStr '''')) \<and>
         (dict_get entry ''lang_code'' (JStr '''') = JStr lang_code \<and>
          process_entry entry lang_code = Inr (Some result) \<longrightarrow>
            produced_senses st st' \<noteq> [])"
proof -
  have rows: "(\<forall>(sid, wid, pos, gloss, ety) \<in> set (produced_senses st st').
      pos = dict_get entry ''pos'' (JStr '''')) \<and>
    (dict_get entry ''lang_code'' (JStr '''') = JStr lang_code \<and>
     process_entry entry lang_code = Inr (Some result) \<longrightarrow> produced_senses st st' \<noteq> [])"
  proof (cases "line_entry lang_code (Decoded (JObj entry))")
    case None
    then have "\<not> (dict_get entry ''lang_code'' (JStr '''') = JStr lang_code \<and>
        process_entry entry lang_code = Inr (Some result))"
      by auto
    with None produced_senses_step [OF assms] show ?thesis by simp
  next
    case (Some r)
    obtain word pos sd ety trs where r: "r = (word, pos, sd, ety, trs)"
      by (cases r) auto
    from line_entry_SomeD(2) [OF Some]
    have acc: "process_entry entry lang_code = Inr (Some (word, pos, sd, ety, trs))"
      by (simp add: r)
    then have pos: "pos = dict_get entry ''pos'' (JStr '''')" by (rule process_entry_Some)
    have eq: "produced_senses st st' = sense_rows (word_id st) pos ety (sense_id st) sd"
      using produced_senses_step [OF assms] Some r by simp
    from process_entry_Some(6) [OF acc] have "produced_senses st st' \<noteq> []"
      unfolding eq by (cases sd) auto
    moreover have "p = pos"
      if "(i, w, p, g, e) \<in> set (sense_rows (word_id st) pos ety (sense_id st) sd)"
      for i w p g e
      using sense_rows_fields [OF that] by simp
    ultimately show ?thesis using pos unfolding eq by auto
  qed
  moreover have "dict_get entry ''pos'' (JStr '''') = JStr ''''" if "map_of entry ''pos'' = None"
    using that by (simp add: dict_get_def)
  ultimately show ?thesis by auto
qed

theorem C10_part_of_speech_witness:
  "map_of gato_entry ''pos'' = None \<and>
   process_entry gato_entry ''es'' =
     Inr (Some (JStr ''gato'', JStr '''', [(JStr ''felino'', []), (JStr ''astuto'', [])],
                JStr ''Del latin cattus.'',
                [\<lparr>target_lang = JStr ''en'', target_word = JStr ''cat'', roman = JStr ''kat''\<rparr>,
                 \<lparr>target_lang = JStr ''en'', target_word = JStr ''tomcat'', roman = JNull\<rparr>])) \<and>
   process_line ''es'' 1 (Decoded (JObj gato_entry)) (start_state ''es'') = Inr gato_state \<and>
   produced_senses (start_state ''es'') gato_state =
     [(1, 1, JStr '''', JStr ''felino'', JStr ''Del latin cattus.''),
      (2, 1, JStr '''', JStr ''astuto'', JStr ''Del latin cattus.'')] \<and>
   dict_get cat_entry ''pos'' (JStr '''') = JStr ''noun'' \<and>
   process_entry cat_entry ''en'' =
     Inr (Some (JStr ''cat'', JStr ''noun'', [(JStr ''a small domesticated feline'', [])], JNull,
                [\<lparr>target_lang = JStr ''es'', target_word = JStr ''gato'', roman = JNull\<rparr>])) \<and>
   process_line ''en'' 1 (Decoded (JObj cat_entry)) (start_state ''en'') = Inr cat_state \<and>
   produced_senses (start_state ''en'') cat_state =
     [(1, 1, JStr ''noun'', JStr ''a small domesticated feline'', JNull)]"
proof -
  have fields: "map_of gato_entry ''pos'' = None"
    "dict_get cat_entry ''pos'' (JStr '''') = JStr ''noun''"
    by (simp_all add: gato_entry_def cat_entry_def dict_get_def)
  from C10_part_of_speech [OF gato_step(2), of gato_result]
       C10_part_of_speech [OF cat_step(2), of cat_result]
       gato_step [unfolded gato_result_def] cat_step [unfolded cat_result_def]
       example_rows fields
  show ?thesis by simp
qed

end
